theory Spec2Isabelle
  imports Complex_Main
begin

section \<open>TPCUtils: track operations and SDP rewriting in unified plan mode\<close>

text \<open>
  A shallow embedding of \<^verbatim>\<open>src/modules/RTC/TPCUtils.js\<close>.
  JavaScript values that may be \<^verbatim>\<open>undefined\<close> or \<^verbatim>\<open>null\<close> are options
  (\<open>None\<close> is the missing value), so that a property read on a missing value is a
  \<open>TypeError\<close> branch of the model. A synchronous \<^verbatim>\<open>throw\<close> and a rejected promise
  are kept apart. The browser's own operations on a sender
  (\<^verbatim>\<open>replaceTrack\<close>, \<^verbatim>\<open>setParameters\<close>) and the sdp-transform codec
  (\<^verbatim>\<open>parse\<close>, \<^verbatim>\<open>write\<close>) are parameters of the model.
\<close>

subsection \<open>Constants\<close>

definition SIM_LAYER_1_RID :: string where "SIM_LAYER_1_RID = ''1''"
definition SIM_LAYER_2_RID :: string where "SIM_LAYER_2_RID = ''2''"
definition SIM_LAYER_3_RID :: string where "SIM_LAYER_3_RID = ''3''"

definition SIM_LAYER_RIDS :: "string list" where
  "SIM_LAYER_RIDS = [SIM_LAYER_1_RID, SIM_LAYER_2_RID, SIM_LAYER_3_RID]"

datatype TransceiverDirection = INACTIVE | RECVONLY | SENDONLY | SENDRECV

text \<open>The two media types of \<^verbatim>\<open>service/RTC/MediaType\<close> that the file compares with.\<close>

definition MediaType_AUDIO :: string where "MediaType_AUDIO = ''audio''"
definition MediaType_VIDEO :: string where "MediaType_VIDEO = ''video''"

subsection \<open>Errors and outcomes\<close>

datatype js_error = Error string | TypeError

text \<open>
  What a call that returns a promise does: the promise resolves, the promise rejects, or
  the call throws before any promise is returned.
\<close>

datatype outcome = Resolved | Rejected js_error | Threw js_error

text \<open>An exception inside a \<^verbatim>\<open>then\<close> callback rejects the chained promise.\<close>

fun in_then :: "outcome \<Rightarrow> outcome" where
  "in_then (Threw e) = Rejected e"
| "in_then r = r"

subsection \<open>The platform flags read from \<^verbatim>\<open>browser\<close>\<close>

record browser =
  isFirefox :: bool
  isVersionGreaterThan :: "nat \<Rightarrow> bool"
  doesVideoMuteByStreamRemove :: bool
  usesSdpMungingForSimulcast :: bool
  isChromiumBased :: bool
  isWebKitBased :: bool

subsection \<open>Tracks, senders, transceivers\<close>

record media_stream_track =
  track_id :: string
  kind :: string

text \<open>
  A \<^verbatim>\<open>JitsiLocalTrack\<close> as this file reads it: the field \<open>rtcId\<close> and the results of
  its getters. A media stream is known by its identity, a number here.
\<close>

record local_track =
  rtcId :: nat
  getType :: string
  getTrack :: media_stream_track
  getTrackId :: string
  getOriginalStream :: "nat option"
  isVideoTrack :: bool
  isMuted :: bool

record rtp_encoding =
  active :: bool
  maxBitrate :: "int option"
  rid :: "string option"
  scaleResolutionDownBy :: "real option"

record rtp_parameters =
  encodings :: "rtp_encoding list option"

record rtp_sender =
  sender_track :: "media_stream_track option"
  getParameters :: rtp_parameters

record rtp_receiver =
  receiver_track :: "media_stream_track option"

record transceiver =
  receiver :: "rtp_receiver option"
  sender :: "rtp_sender option"
  direction :: TransceiverDirection

text \<open>
  The part of the TraceablePeerConnection that the file reads and writes:
  \<^verbatim>\<open>peerconnection.getTransceivers()\<close>, the maps \<^verbatim>\<open>localTracks\<close> and
  \<^verbatim>\<open>localSSRCs\<close> (keyed by \<open>rtcId\<close>), the array \<^verbatim>\<open>_addedStreams\<close> and
  \<^verbatim>\<open>isSimulcastOn()\<close>. A value stored in \<^verbatim>\<open>localSSRCs\<close> may be
  \<^verbatim>\<open>undefined\<close>, so the map's values are options.
\<close>

record 's peer_connection =
  transceivers :: "transceiver list"
  localTracks :: "nat \<rightharpoonup> local_track"
  localSSRCs :: "nat \<rightharpoonup> 's option"
  addedStreams :: "nat list"
  isSimulcastOn :: bool

text \<open>\<^verbatim>\<open>Map.prototype.get\<close>: \<^verbatim>\<open>undefined\<close> for a missing key.\<close>

definition Map_get :: "('k \<rightharpoonup> 'v option) \<Rightarrow> 'k \<Rightarrow> 'v option" where
  "Map_get m k = (case m k of None \<Rightarrow> None | Some v \<Rightarrow> v)"

text \<open>The browser's sender operations: each fails with an error or gives the new sender.\<close>

record transport =
  ext_replaceTrack :: "rtp_sender \<Rightarrow> media_stream_track option \<Rightarrow> js_error + rtp_sender"
  ext_setParameters :: "rtp_sender \<Rightarrow> rtp_parameters \<Rightarrow> js_error + rtp_sender"

subsection \<open>The TPCUtils object and its constructor\<close>

record video_bitrates =
  low :: int
  standard :: int
  high :: int

text \<open>
  The constructor's second argument is either a table per codec, of which the
  \<^verbatim>\<open>VP8\<close> entry is taken, or the table of bitrates itself
  (\<^verbatim>\<open>videoBitrates.VP8 || videoBitrates\<close>).
\<close>

datatype bitrates_arg = PerCodec (VP8: video_bitrates) | Plain video_bitrates

record 's tpc_utils =
  pc :: "'s peer_connection"
  videoBitrates :: video_bitrates
  localStreamEncodingsConfig :: "rtp_encoding list"

definition constructor :: "browser \<Rightarrow> 's peer_connection \<Rightarrow> bitrates_arg \<Rightarrow> 's tpc_utils" where
  "constructor b peerconnection arg =
     (let vb = (case arg of PerCodec v \<Rightarrow> v | Plain v \<Rightarrow> v) in
      \<lparr> pc = peerconnection,
        videoBitrates = vb,
        localStreamEncodingsConfig =
          [ \<lparr> active = True,
              maxBitrate = Some (if isFirefox b then high vb else low vb),
              rid = Some SIM_LAYER_1_RID,
              scaleResolutionDownBy = Some (if isFirefox b then 1 else 4) \<rparr>,
            \<lparr> active = True,
              maxBitrate = Some (standard vb),
              rid = Some SIM_LAYER_2_RID,
              scaleResolutionDownBy = Some 2 \<rparr>,
            \<lparr> active = True,
              maxBitrate = Some (if isFirefox b then low vb else high vb),
              rid = Some SIM_LAYER_3_RID,
              scaleResolutionDownBy = Some (if isFirefox b then 4 else 1) \<rparr> ] \<rparr>)"

subsection \<open>Array helpers\<close>

text \<open>\<^verbatim>\<open>Array.prototype.findIndex\<close>; \<open>None\<close> stands for the result \<open>-1\<close>.\<close>

fun findIndex :: "('a \<Rightarrow> bool) \<Rightarrow> 'a list \<Rightarrow> nat option" where
  "findIndex P [] = None"
| "findIndex P (x # xs) = (if P x then Some 0 else map_option Suc (findIndex P xs))"

subsection \<open>Transceiver lookup\<close>

definition receiver_kind :: "transceiver \<Rightarrow> string option" where
  "receiver_kind t =
     (case receiver t of None \<Rightarrow> None
      | Some r \<Rightarrow> (case receiver_track r of None \<Rightarrow> None | Some tr \<Rightarrow> Some (kind tr)))"

definition sender_track_id :: "transceiver \<Rightarrow> string option" where
  "sender_track_id t =
     (case sender t of None \<Rightarrow> None
      | Some s \<Rightarrow> (case sender_track s of None \<Rightarrow> None | Some tr \<Rightarrow> Some (track_id tr)))"

text \<open>
  \<^verbatim>\<open>_findTransceiver(mediaType, localTrack = null)\<close>: the position of the transceiver
  in \<^verbatim>\<open>getTransceivers()\<close>, or \<open>None\<close> when \<^verbatim>\<open>find\<close> gives \<^verbatim>\<open>undefined\<close>.
\<close>

definition findTransceiver ::
  "browser \<Rightarrow> 's tpc_utils \<Rightarrow> string \<Rightarrow> local_track option \<Rightarrow> nat option" where
  "findTransceiver b this mediaType localTrack =
     (let trackRemoved =
            (case localTrack of
               None \<Rightarrow> True
             | Some lt \<Rightarrow> doesVideoMuteByStreamRemove b \<and> isVideoTrack lt \<and> isMuted lt)
      in if trackRemoved
         then findIndex (\<lambda>t. receiver_kind t = Some mediaType) (transceivers (pc this))
         else (case localTrack of
                 Some lt \<Rightarrow>
                   findIndex (\<lambda>t. sender_track_id t = Some (getTrackId lt))
                     (transceivers (pc this))
               | None \<Rightarrow> None))"

subsection \<open>Stream encodings\<close>

text \<open>\<^verbatim>\<open>_getStreamEncodings(localTrack)\<close>\<close>

definition getStreamEncodings :: "'s tpc_utils \<Rightarrow> local_track \<Rightarrow> rtp_encoding list" where
  "getStreamEncodings this localTrack =
     (if isSimulcastOn (pc this) \<and> isVideoTrack localTrack
      then localStreamEncodingsConfig this
      else if isVideoTrack localTrack
           then [ \<lparr> active = True, maxBitrate = Some (high (videoBitrates this)),
                    rid = None, scaleResolutionDownBy = None \<rparr> ]
           else [ \<lparr> active = True, maxBitrate = None,
                    rid = None, scaleResolutionDownBy = None \<rparr> ])"

text \<open>
  \<^verbatim>\<open>updateEncodingsResolution(parameters)\<close> mutates its argument: the model returns
  the error thrown, if any, and the parameters as the call leaves them. The
  \<^verbatim>\<open>forEach\<close> reads \<^verbatim>\<open>localStreamEncodingsConfig[idx]\<close>, which is
  \<^verbatim>\<open>undefined\<close> beyond the end of the configuration: the read of its property throws,
  and the encodings before \<open>idx\<close> stay overwritten.
\<close>

definition allEqualEncodings :: "rtp_encoding list \<Rightarrow> bool" where
  "allEqualEncodings encs =
     (case encs of
        [] \<Rightarrow> True
      | e0 # _ \<Rightarrow>
          list_all (\<lambda>encoding. scaleResolutionDownBy encoding \<noteq> None
                       \<and> scaleResolutionDownBy encoding = scaleResolutionDownBy e0) encs)"

fun overwriteResolutions ::
  "rtp_encoding list \<Rightarrow> nat \<Rightarrow> rtp_encoding list \<Rightarrow> js_error option \<times> rtp_encoding list" where
  "overwriteResolutions config idx [] = (None, [])"
| "overwriteResolutions config idx (encoding # rest) =
     (if idx < length config
      then (case overwriteResolutions config (Suc idx) rest of
              (err, rest') \<Rightarrow>
                (err, encoding\<lparr>scaleResolutionDownBy := scaleResolutionDownBy (config ! idx)\<rparr>
                        # rest'))
      else (Some TypeError, encoding # rest))"

definition updateEncodingsResolution ::
  "browser \<Rightarrow> 's tpc_utils \<Rightarrow> rtp_parameters \<Rightarrow> js_error option \<times> rtp_parameters" where
  "updateEncodingsResolution b this parameters =
     (if \<not> (isWebKitBased b \<and> encodings parameters \<noteq> None) then (None, parameters)
      else (case encodings parameters of
              None \<Rightarrow> (None, parameters)
            | Some encs \<Rightarrow>
                if allEqualEncodings encs
                then (case overwriteResolutions (localStreamEncodingsConfig this) 0 encs of
                        (err, encs') \<Rightarrow> (err, parameters\<lparr>encodings := Some encs'\<rparr>))
                else (None, parameters)))"

subsection \<open>Track operations\<close>

text \<open>
  \<^verbatim>\<open>transceiver.sender.replaceTrack(track)\<close> on the transceiver at position \<open>i\<close>:
  reading \<^verbatim>\<open>replaceTrack\<close> from a missing sender throws; otherwise the browser
  decides, and on success the transceiver carries the new sender.
\<close>

definition sender_replaceTrack ::
  "transport \<Rightarrow> 's tpc_utils \<Rightarrow> nat \<Rightarrow> media_stream_track option \<Rightarrow> outcome \<times> 's tpc_utils" where
  "sender_replaceTrack env this i track =
     (let t = transceivers (pc this) ! i in
      case sender t of
        None \<Rightarrow> (Threw TypeError, this)
      | Some s \<Rightarrow>
          (case ext_replaceTrack env s track of
             Inl e \<Rightarrow> (Rejected e, this)
           | Inr s' \<Rightarrow>
               (Resolved,
                this\<lparr>pc := (pc this)\<lparr>transceivers :=
                  (transceivers (pc this))[i := t\<lparr>sender := Some s'\<rparr>]\<rparr>\<rparr>)))"

definition set_direction :: "'s tpc_utils \<Rightarrow> nat \<Rightarrow> TransceiverDirection \<Rightarrow> 's tpc_utils" where
  "set_direction this i d =
     this\<lparr>pc := (pc this)\<lparr>transceivers :=
       (transceivers (pc this))[i := (transceivers (pc this) ! i)\<lparr>direction := d\<rparr>]\<rparr>\<rparr>"

definition not_found_message :: "string \<Rightarrow> string" where
  "not_found_message mediaType = ''RTCRtpTransceiver for '' @ mediaType @ '' not found''"

text \<open>\<^verbatim>\<open>addTrackUnmute(localTrack)\<close>\<close>

definition addTrackUnmute ::
  "browser \<Rightarrow> transport \<Rightarrow> 's tpc_utils \<Rightarrow> local_track \<Rightarrow> outcome \<times> 's tpc_utils" where
  "addTrackUnmute b env this localTrack =
     (let mediaType = getType localTrack;
          track = getTrack localTrack
      in case findTransceiver b this mediaType None of
           None \<Rightarrow> (Rejected (Error (not_found_message mediaType)), this)
         | Some i \<Rightarrow> sender_replaceTrack env this i (Some track))"

text \<open>\<^verbatim>\<open>removeTrackMute(localTrack)\<close>\<close>

definition removeTrackMute ::
  "browser \<Rightarrow> transport \<Rightarrow> 's tpc_utils \<Rightarrow> local_track \<Rightarrow> outcome \<times> 's tpc_utils" where
  "removeTrackMute b env this localTrack =
     (let mediaType = getType localTrack
      in case findTransceiver b this mediaType (Some localTrack) of
           None \<Rightarrow> (Rejected (Error (not_found_message mediaType)), this)
         | Some i \<Rightarrow> sender_replaceTrack env this i None)"

text \<open>
  \<^verbatim>\<open>setEncodings(track)\<close>: \<^verbatim>\<open>transceiver?.sender?.getParameters()\<close> is
  \<^verbatim>\<open>undefined\<close> when there is no transceiver or no sender; the promise resolves
  at once when \<^verbatim>\<open>parameters?.encodings?.length\<close> is missing or zero.
\<close>

definition setEncodings ::
  "browser \<Rightarrow> transport \<Rightarrow> 's tpc_utils \<Rightarrow> local_track \<Rightarrow> outcome \<times> 's tpc_utils" where
  "setEncodings b env this track =
     (let mediaType = getType track
      in case findTransceiver b this mediaType (Some track) of
           None \<Rightarrow> (Resolved, this)
         | Some i \<Rightarrow>
             (case sender (transceivers (pc this) ! i) of
                None \<Rightarrow> (Resolved, this)
              | Some s \<Rightarrow>
                  (let parameters = getParameters s
                   in case encodings parameters of
                        None \<Rightarrow> (Resolved, this)
                      | Some [] \<Rightarrow> (Resolved, this)
                      | Some (e # es) \<Rightarrow>
                          (let parameters' =
                                 parameters\<lparr>encodings := Some (getStreamEncodings this track)\<rparr>
                           in case ext_setParameters env s parameters' of
                                Inl err \<Rightarrow> (Rejected err, this)
                              | Inr s' \<Rightarrow>
                                  (Resolved,
                                   this\<lparr>pc := (pc this)\<lparr>transceivers :=
                                     (transceivers (pc this))
                                       [i := (transceivers (pc this) ! i)
                                               \<lparr>sender := Some s'\<rparr>]\<rparr>\<rparr>)))))"

text \<open>
  \<^verbatim>\<open>replaceTrack(oldTrack, newTrack)\<close>. A track argument that is
  \<^verbatim>\<open>null\<close> or \<^verbatim>\<open>undefined\<close> is \<open>None\<close>. The \<^verbatim>\<open>then\<close> callbacks run
  when the promise before them has resolved; a rejection or a throw passes through.
\<close>

definition replaceTrack_both ::
  "browser \<Rightarrow> transport \<Rightarrow> 's tpc_utils \<Rightarrow> local_track \<Rightarrow> local_track \<Rightarrow> outcome \<times> 's tpc_utils" where
  "replaceTrack_both b env this oldTrack newTrack =
     (let mediaType = getType newTrack
      in case getOriginalStream newTrack of
           None \<Rightarrow>
             (Resolved,
              this\<lparr>pc := (pc this)\<lparr>localTracks :=
                ((localTracks (pc this))(rtcId oldTrack := None))(rtcId newTrack \<mapsto> newTrack)\<rparr>\<rparr>)
         | Some stream \<Rightarrow>
             (let transceiver = findTransceiver b this mediaType (Some oldTrack);
                  track = getTrack newTrack
              in case transceiver of
                   None \<Rightarrow> (Rejected (Error ''replace track failed''), this)
                 | Some i \<Rightarrow>
                     (case sender_replaceTrack env this i (Some track) of
                        (Resolved, this1) \<Rightarrow>
                          (let ssrc = Map_get (localSSRCs (pc this1)) (rtcId oldTrack);
                               p1 = (pc this1)\<lparr>localTracks :=
                                       (localTracks (pc this1))(rtcId oldTrack := None)\<rparr>;
                               p2 = p1\<lparr>localSSRCs := (localSSRCs p1)(rtcId oldTrack := None)\<rparr>;
                               p3 = p2\<lparr>addedStreams :=
                                       filter (\<lambda>s. s \<noteq> stream) (addedStreams p2)\<rparr>;
                               p4 = p3\<lparr>localTracks :=
                                       (localTracks p3)(rtcId newTrack \<mapsto> newTrack)\<rparr>;
                               p5 = p4\<lparr>addedStreams := addedStreams p4 @ [stream]\<rparr>;
                               p6 = p5\<lparr>localSSRCs := (localSSRCs p5)(rtcId newTrack \<mapsto> ssrc)\<rparr>
                           in (Resolved, this1\<lparr>pc := p6\<rparr>))
                      | (r, this1) \<Rightarrow> (r, this1))))"

definition replaceTrack_mute ::
  "browser \<Rightarrow> transport \<Rightarrow> 's tpc_utils \<Rightarrow> local_track \<Rightarrow> outcome \<times> 's tpc_utils" where
  "replaceTrack_mute b env this oldTrack =
     (case removeTrackMute b env this oldTrack of
        (Resolved, this1) \<Rightarrow>
          (let mediaType = getType oldTrack;
               this2 = (case findTransceiver b this1 mediaType None of
                          Some i \<Rightarrow> set_direction this1 i RECVONLY
                        | None \<Rightarrow> this1);
               p1 = (pc this2)\<lparr>localTracks := (localTracks (pc this2))(rtcId oldTrack := None)\<rparr>;
               p2 = p1\<lparr>localSSRCs := (localSSRCs p1)(rtcId oldTrack := None)\<rparr>
           in (Resolved, this2\<lparr>pc := p2\<rparr>))
      | (r, this1) \<Rightarrow> (r, this1))"

definition replaceTrack_unmute ::
  "browser \<Rightarrow> transport \<Rightarrow> 's tpc_utils \<Rightarrow> local_track \<Rightarrow> outcome \<times> 's tpc_utils" where
  "replaceTrack_unmute b env this newTrack =
     (case addTrackUnmute b env this newTrack of
        (Resolved, this1) \<Rightarrow>
          (let mediaType = getType newTrack;
               this2 = (case findTransceiver b this1 mediaType (Some newTrack) of
                          Some i \<Rightarrow> set_direction this1 i SENDRECV
                        | None \<Rightarrow> this1)
           in case (if isChromiumBased b then (Resolved, this2)
                    else setEncodings b env this2 newTrack) of
                (Resolved, this3) \<Rightarrow>
                  (Resolved,
                   this3\<lparr>pc := (pc this3)\<lparr>localTracks :=
                     (localTracks (pc this3))(rtcId newTrack \<mapsto> newTrack)\<rparr>\<rparr>)
              | (r, this3) \<Rightarrow> (in_then r, this3))
      | (r, this1) \<Rightarrow> (r, this1))"

fun replaceTrack ::
  "browser \<Rightarrow> transport \<Rightarrow> 's tpc_utils \<Rightarrow> local_track option \<Rightarrow> local_track option
     \<Rightarrow> outcome \<times> 's tpc_utils" where
  "replaceTrack b env this (Some oldTrack) (Some newTrack) =
     replaceTrack_both b env this oldTrack newTrack"
| "replaceTrack b env this (Some oldTrack) None = replaceTrack_mute b env this oldTrack"
| "replaceTrack b env this None (Some newTrack) = replaceTrack_unmute b env this newTrack"
| "replaceTrack b env this None None = (Resolved, this)"

subsection \<open>The parsed session description\<close>

text \<open>
  The structure that \<^verbatim>\<open>transform.parse\<close> gives, as far as the file reads and writes
  it. An attribute that the description does not have is \<^verbatim>\<open>undefined\<close>
  (\<open>None\<close>).

  The codec turns a captured text into a Number when the text is the decimal form of
  that number, and leaves it a string otherwise. So the id of a source is a Number
  (\<open>10\<close>) or a string (\<open>010\<close>), and the member list of a source group is a
  string when it has several ids separated by spaces (\<open>10 20\<close>) and a Number when
  it is one id (\<open>10\<close>). The Numbers of the model are the natural numbers, which
  is what the digits of an id are. A media type is kept as its text: a type that the
  codec gives as a Number is equal to neither \<open>audio\<close> nor \<open>video\<close>, as its
  digits are.
\<close>

datatype js_scalar = Num nat | Str string

record ssrc_line =
  ssrc_id :: js_scalar
  attribute :: string
  ssrc_value :: "string option"

record ssrc_group =
  semantics :: string
  group_ssrcs :: js_scalar

record rid_line =
  rid_id :: string
  rid_direction :: string

record simulcast_attr =
  dir1 :: string
  list1 :: string

record simulcast_03_attr =
  sim_value :: string

record mline =
  mline_type :: string
  ssrcs :: "ssrc_line list option"
  ssrcGroups :: "ssrc_group list option"
  rids :: "rid_line list option"
  simulcast :: "simulcast_attr option"
  simulcast_03 :: "simulcast_03_attr option"

record session =
  media :: "mline list"

record description =
  desc_type :: string
  desc_sdp :: string

text \<open>The sdp-transform codec.\<close>

record transform =
  transform_parse :: "string \<Rightarrow> session"
  transform_write :: "session \<Rightarrow> string"

subsection \<open>String helpers\<close>

text \<open>\<^verbatim>\<open>String.prototype.split\<close> with a separator of one character.\<close>

fun split_acc :: "char \<Rightarrow> string \<Rightarrow> string \<Rightarrow> string list" where
  "split_acc sep cur [] = [cur]"
| "split_acc sep cur (c # cs) =
     (if c = sep then cur # split_acc sep [] cs else split_acc sep (cur @ [c]) cs)"

definition split_str :: "char \<Rightarrow> string \<Rightarrow> string list" where
  "split_str sep s = split_acc sep [] s"

text \<open>\<^verbatim>\<open>Array.prototype.join\<close>\<close>

fun join_str :: "string \<Rightarrow> string list \<Rightarrow> string" where
  "join_str sep [] = []"
| "join_str sep [x] = x"
| "join_str sep (x # y # ys) = x @ sep @ join_str sep (y # ys)"

text \<open>\<^verbatim>\<open>Number.prototype.toString\<close> on a natural number: its decimal digits.\<close>

definition digit_char :: "nat \<Rightarrow> char" where
  "digit_char d = ''0123456789'' ! d"

function toString_nat :: "nat \<Rightarrow> string" where
  "toString_nat n =
     (if n < 10 then [digit_char n] else toString_nat (n div 10) @ [digit_char (n mod 10)])"
  by pat_completeness auto
termination
  by (relation "measure (\<lambda>n. n)") auto

declare toString_nat.simps [simp del]

text \<open>\<^verbatim>\<open>toString()\<close> on a value of the parsed description.\<close>

fun toString :: "js_scalar \<Rightarrow> string" where
  "toString (Num n) = toString_nat n"
| "toString (Str s) = s"

subsection \<open>Source order\<close>

text \<open>
  The inner \<^verbatim>\<open>forEach\<close> of \<^verbatim>\<open>ensureCorrectOrderOfSsrcs\<close> over the members of
  the first group, with \<^verbatim>\<open>reorderedSsrcs\<close> as the accumulator.
  \<^verbatim>\<open>mLine.ssrcs.filter\<close> throws when the section has no \<^verbatim>\<open>ssrcs\<close>.
\<close>

fun reorder_members ::
  "ssrc_line list option \<Rightarrow> string list \<Rightarrow> ssrc_line list \<Rightarrow> js_error + ssrc_line list" where
  "reorder_members srcs [] reorderedSsrcs = Inr reorderedSsrcs"
| "reorder_members srcs (ssrc # rest) reorderedSsrcs =
     (case srcs of
        None \<Rightarrow> Inl TypeError
      | Some xs \<Rightarrow>
          (let sources = filter (\<lambda>source. toString (ssrc_id source) = ssrc) xs
           in reorder_members srcs rest (reorderedSsrcs @ sources)))"

text \<open>
  The body of the outer \<^verbatim>\<open>forEach\<close>, for one media section.
  \<^verbatim>\<open>mLine.ssrcGroups[0].ssrcs.split(' ')\<close> throws when the member list is a
  Number, which has no \<^verbatim>\<open>split\<close>.
\<close>

definition reorder_mline :: "mline \<Rightarrow> js_error + mline" where
  "reorder_mline mLine =
     (if mline_type mLine = MediaType_AUDIO then Inr mLine
      else (case ssrcGroups mLine of
              None \<Rightarrow> Inr mLine
            | Some [] \<Rightarrow> Inr mLine
            | Some (g # _) \<Rightarrow>
                (case group_ssrcs g of
                   Num n \<Rightarrow> Inl TypeError
                 | Str members \<Rightarrow>
                     (case reorder_members (ssrcs mLine) (split_str CHR '' '' members) [] of
                        Inl e \<Rightarrow> Inl e
                      | Inr reorderedSsrcs \<Rightarrow> Inr (mLine\<lparr>ssrcs := Some reorderedSsrcs\<rparr>)))))"

text \<open>\<^verbatim>\<open>forEach\<close> over the sections: an exception ends the loop and the call.\<close>

fun forEach_mline :: "(mline \<Rightarrow> js_error + mline) \<Rightarrow> mline list \<Rightarrow> js_error + mline list" where
  "forEach_mline f [] = Inr []"
| "forEach_mline f (m # ms) =
     (case f m of
        Inl e \<Rightarrow> Inl e
      | Inr m' \<Rightarrow> (case forEach_mline f ms of Inl e \<Rightarrow> Inl e | Inr ms' \<Rightarrow> Inr (m' # ms')))"

text \<open>What \<^verbatim>\<open>ensureCorrectOrderOfSsrcs\<close> does between \<^verbatim>\<open>parse\<close> and \<^verbatim>\<open>write\<close>.\<close>

definition reorder_session :: "session \<Rightarrow> js_error + session" where
  "reorder_session parsedSdp =
     (case forEach_mline reorder_mline (media parsedSdp) of
        Inl e \<Rightarrow> Inl e
      | Inr ms \<Rightarrow> Inr (parsedSdp\<lparr>media := ms\<rparr>))"

definition ensureCorrectOrderOfSsrcs :: "transform \<Rightarrow> description \<Rightarrow> js_error + description" where
  "ensureCorrectOrderOfSsrcs tr desc =
     (case reorder_session (transform_parse tr (desc_sdp desc)) of
        Inl e \<Rightarrow> Inl e
      | Inr parsedSdp \<Rightarrow>
          Inr \<lparr> desc_type = desc_type desc, desc_sdp = transform_write tr parsedSdp \<rparr>)"

subsection \<open>Simulcast receive\<close>

definition simulcastLine :: "browser \<Rightarrow> string" where
  "simulcastLine b =
     (if isFirefox b \<and> isVersionGreaterThan b 71
      then ''recv '' @ join_str '';'' SIM_LAYER_RIDS
      else ''recv rid='' @ join_str '';'' SIM_LAYER_RIDS)"

definition recv_rids :: "rid_line list" where
  "recv_rids =
     [ \<lparr> rid_id = SIM_LAYER_1_RID, rid_direction = ''recv'' \<rparr>,
       \<lparr> rid_id = SIM_LAYER_2_RID, rid_direction = ''recv'' \<rparr>,
       \<lparr> rid_id = SIM_LAYER_3_RID, rid_direction = ''recv'' \<rparr> ]"

text \<open>
  The \<^verbatim>\<open>forEach\<close> that clears the simulcast attributes of the video sections other
  than the one at \<open>idx\<close>; \<open>i\<close> is the position of the head of the list.
\<close>

fun strip_other_video :: "nat \<Rightarrow> nat \<Rightarrow> mline list \<Rightarrow> mline list" where
  "strip_other_video idx i [] = []"
| "strip_other_video idx i (mline # rest) =
     (if mline_type mline = MediaType_VIDEO \<and> i \<noteq> idx
      then mline\<lparr>rids := None, simulcast := None, simulcast_03 := None\<rparr>
      else mline) # strip_other_video idx (Suc i) rest"

text \<open>
  What \<^verbatim>\<open>insertUnifiedPlanSimulcastReceive\<close> does between \<^verbatim>\<open>parse\<close> and
  \<^verbatim>\<open>write\<close>. With no video section \<^verbatim>\<open>findIndex\<close> gives \<open>-1\<close>,
  \<^verbatim>\<open>sdp.media[-1]\<close> is \<^verbatim>\<open>undefined\<close> and reading its \<^verbatim>\<open>rids\<close> throws.
\<close>

definition insertSimulcastReceive_session :: "browser \<Rightarrow> session \<Rightarrow> js_error + session" where
  "insertSimulcastReceive_session b sdp =
     (case findIndex (\<lambda>mline. mline_type mline = MediaType_VIDEO) (media sdp) of
        None \<Rightarrow> Inl TypeError
      | Some idx \<Rightarrow>
          (let m = media sdp ! idx
           in if rids m \<noteq> None \<and> (simulcast_03 m \<noteq> None \<or> simulcast m \<noteq> None)
              then Inr (sdp\<lparr>media := strip_other_video idx 0 (media sdp)\<rparr>)
              else Inr (sdp\<lparr>media := (media sdp)
                     [idx := m\<lparr>rids := Some recv_rids,
                                simulcast_03 := Some \<lparr> sim_value = simulcastLine b \<rparr>\<rparr>]\<rparr>)))"

definition insertUnifiedPlanSimulcastReceive ::
  "browser \<Rightarrow> transform \<Rightarrow> description \<Rightarrow> js_error + description" where
  "insertUnifiedPlanSimulcastReceive b tr desc =
     (if usesSdpMungingForSimulcast b then Inr desc
      else (case insertSimulcastReceive_session b (transform_parse tr (desc_sdp desc)) of
              Inl e \<Rightarrow> Inl e
            | Inr sdp \<Rightarrow> Inr \<lparr> desc_type = desc_type desc, desc_sdp = transform_write tr sdp \<rparr>))"

subsection \<open>The specification's reading of the source order\<close>

text \<open>
  The member ids of a source group in their declared order (a member list that is a
  Number is one id), and the text that a source's id is compared with.
\<close>

definition group_members :: "ssrc_group \<Rightarrow> string list" where
  "group_members g =
     (case group_ssrcs g of
        Num n \<Rightarrow> [toString_nat n]
      | Str members \<Rightarrow> split_str CHR '' '' members)"

definition source_key :: "ssrc_line \<Rightarrow> string" where
  "source_key source = toString (ssrc_id source)"

text \<open>
  The rebuilt source list in the specification's words: for each member id in order, the
  descriptors whose id matches, concatenated.
\<close>

definition spec_rebuild :: "string list \<Rightarrow> ssrc_line list \<Rightarrow> ssrc_line list" where
  "spec_rebuild members sources =
     concat (map (\<lambda>member. filter (\<lambda>source. source_key source = member) sources) members)"

text \<open>
  A list of source ids is in member order when it is a run of the first member's id,
  then a run of the second member's id, and so on, and nothing else.
\<close>

fun in_member_order :: "string list \<Rightarrow> string list \<Rightarrow> bool" where
  "in_member_order [] ks = (ks = [])"
| "in_member_order (m # ms) ks = in_member_order ms (dropWhile (\<lambda>k. k = m) ks)"

text \<open>
  The specification's ordering invariant of a section: each retransmission grouping
  (\<open>FID\<close>, a primary and its retransmission source) has its primary source listed
  immediately before its retransmission source. Several descriptors of one source count
  as one entry of the list. A grouping that is not a pair has no retransmission source
  to place.
\<close>

fun immediately_before :: "string \<Rightarrow> string \<Rightarrow> string list \<Rightarrow> bool" where
  "immediately_before p r (a # b # ks) = ((a = p \<and> b = r) \<or> immediately_before p r (b # ks))"
| "immediately_before p r ks = False"

definition fid_group_ordered :: "ssrc_line list \<Rightarrow> ssrc_group \<Rightarrow> bool" where
  "fid_group_ordered sources g =
     (if semantics g = ''FID''
      then (case group_members g of
              [p, r] \<Rightarrow> immediately_before p r (remdups_adj (map source_key sources))
            | _ \<Rightarrow> True)
      else True)"

definition spec_ordering_invariant :: "session \<Rightarrow> bool" where
  "spec_ordering_invariant sdp =
     list_all (\<lambda>m. mline_type m = MediaType_AUDIO
                 \<or> list_all (fid_group_ordered (case ssrcs m of None \<Rightarrow> [] | Some xs \<Rightarrow> xs))
                      (case ssrcGroups m of None \<Rightarrow> [] | Some gs \<Rightarrow> gs))
       (media sdp)"

text \<open>A section carries the simulcast receive advertisement.\<close>

definition carries_simulcast :: "mline \<Rightarrow> bool" where
  "carries_simulcast m = (rids m \<noteq> None \<or> simulcast m \<noteq> None \<or> simulcast_03 m \<noteq> None)"

subsection \<open>Example data\<close>

definition ex_browser :: browser where
  "ex_browser = \<lparr> isFirefox = False, isVersionGreaterThan = (\<lambda>v. True),
      doesVideoMuteByStreamRemove = False, usesSdpMungingForSimulcast = False,
      isChromiumBased = False, isWebKitBased = True \<rparr>"

text \<open>A transport whose sender operations always succeed.\<close>

definition ex_transport :: transport where
  "ex_transport = \<lparr> ext_replaceTrack = (\<lambda>s t. Inr (s\<lparr>sender_track := t\<rparr>)),
      ext_setParameters = (\<lambda>s p. Inr (s\<lparr>getParameters := p\<rparr>)) \<rparr>"

definition ex_bitrates :: video_bitrates where
  "ex_bitrates = \<lparr> low = 200000, standard = 500000, high = 1500000 \<rparr>"

definition ex_camera :: local_track where
  "ex_camera = \<lparr> rtcId = 1, getType = ''video'',
      getTrack = \<lparr> track_id = ''cam'', kind = ''video'' \<rparr>, getTrackId = ''cam'',
      getOriginalStream = Some 100, isVideoTrack = True, isMuted = False \<rparr>"

definition ex_desktop :: local_track where
  "ex_desktop = \<lparr> rtcId = 2, getType = ''video'',
      getTrack = \<lparr> track_id = ''screen'', kind = ''video'' \<rparr>, getTrackId = ''screen'',
      getOriginalStream = Some 200, isVideoTrack = True, isMuted = False \<rparr>"

definition ex_muted_camera :: local_track where
  "ex_muted_camera = \<lparr> rtcId = 3, getType = ''video'',
      getTrack = \<lparr> track_id = ''cam2'', kind = ''video'' \<rparr>, getTrackId = ''cam2'',
      getOriginalStream = None, isVideoTrack = True, isMuted = True \<rparr>"

definition ex_mic :: local_track where
  "ex_mic = \<lparr> rtcId = 4, getType = ''audio'',
      getTrack = \<lparr> track_id = ''mic'', kind = ''audio'' \<rparr>, getTrackId = ''mic'',
      getOriginalStream = Some 300, isVideoTrack = False, isMuted = False \<rparr>"

definition ex_video_transceiver :: transceiver where
  "ex_video_transceiver =
     \<lparr> receiver = Some \<lparr> receiver_track = Some \<lparr> track_id = ''remote'', kind = ''video'' \<rparr> \<rparr>,
       sender = Some \<lparr> sender_track = Some \<lparr> track_id = ''cam'', kind = ''video'' \<rparr>,
                       getParameters = \<lparr> encodings = Some [] \<rparr> \<rparr>,
       direction = SENDRECV \<rparr>"

text \<open>
  A connection with one video transceiver that sends the camera; the camera's stream
  is the only added stream.
\<close>

definition ex_pc :: "nat peer_connection" where
  "ex_pc = \<lparr> transceivers = [ex_video_transceiver],
      localTracks = [1 \<mapsto> ex_camera],
      localSSRCs = [1 \<mapsto> Some 1111],
      addedStreams = [100],
      isSimulcastOn = False \<rparr>"

definition ex_tpc :: "nat tpc_utils" where
  "ex_tpc = constructor ex_browser ex_pc (Plain ex_bitrates)"

definition ex_encoding :: "real \<Rightarrow> rtp_encoding" where
  "ex_encoding f = \<lparr> active = True, maxBitrate = None, rid = None,
      scaleResolutionDownBy = Some f \<rparr>"

text \<open>A codec that parses every text to the given session.\<close>

definition stub_transform :: "session \<Rightarrow> transform" where
  "stub_transform s = \<lparr> transform_parse = (\<lambda>text. s), transform_write = (\<lambda>parsed. ''v=0'') \<rparr>"

definition ex_offer :: description where
  "ex_offer = \<lparr> desc_type = ''offer'', desc_sdp = ''v=0'' \<rparr>"

definition cname_line :: "nat \<Rightarrow> ssrc_line" where
  "cname_line n = \<lparr> ssrc_id = Num n, attribute = ''cname'', ssrc_value = Some ''peer'' \<rparr>"

definition msid_line :: "nat \<Rightarrow> ssrc_line" where
  "msid_line n = \<lparr> ssrc_id = Num n, attribute = ''msid'', ssrc_value = Some ''stream track'' \<rparr>"

definition ex_audio_section :: mline where
  "ex_audio_section = \<lparr> mline_type = ''audio'', ssrcs = Some [cname_line 5],
      ssrcGroups = None, rids = None, simulcast = None, simulcast_03 = None \<rparr>"

definition video_section :: "ssrc_line list option \<Rightarrow> ssrc_group list \<Rightarrow> mline" where
  "video_section srcs groups = \<lparr> mline_type = ''video'', ssrcs = srcs,
      ssrcGroups = Some groups, rids = None, simulcast = None, simulcast_03 = None \<rparr>"

definition fid_group :: "string \<Rightarrow> ssrc_group" where
  "fid_group members = \<lparr> semantics = ''FID'', group_ssrcs = Str members \<rparr>"

text \<open>A video section that already advertises simulcast receive.\<close>

definition ex_simulcast_section :: mline where
  "ex_simulcast_section = \<lparr> mline_type = ''video'', ssrcs = None, ssrcGroups = None,
      rids = Some [\<lparr> rid_id = ''1'', rid_direction = ''recv'' \<rparr>],
      simulcast = Some \<lparr> dir1 = ''recv'', list1 = ''1'' \<rparr>, simulcast_03 = None \<rparr>"

definition ex_plain_video_section :: mline where
  "ex_plain_video_section = \<lparr> mline_type = ''video'', ssrcs = None, ssrcGroups = None,
      rids = None, simulcast = None, simulcast_03 = None \<rparr>"

text \<open>
  The rewrite of one section in the specification's words, as a total function: an audio
  section, a section with no group and a section with no source list are left as they
  are.
\<close>

definition spec_reorder_mline :: "mline \<Rightarrow> mline" where
  "spec_reorder_mline m =
     (if mline_type m = MediaType_AUDIO then m
      else (case ssrcGroups m of
              None \<Rightarrow> m
            | Some [] \<Rightarrow> m
            | Some (g # gs) \<Rightarrow>
                (case ssrcs m of
                   None \<Rightarrow> m
                 | Some xs \<Rightarrow> m\<lparr>ssrcs := Some (spec_rebuild (group_members g) xs)\<rparr>)))"

text \<open>Example sessions.\<close>

definition ex_swapped_session :: session where
  "ex_swapped_session =
     \<lparr> media = [ex_audio_section,
                 video_section (Some [cname_line 20, cname_line 10]) [fid_group ''10 20'']] \<rparr>"

definition ex_unsourced_session :: session where
  "ex_unsourced_session = \<lparr> media = [video_section None [fid_group ''10 20'']] \<rparr>"

definition ex_two_groups_session :: session where
  "ex_two_groups_session =
     \<lparr> media = [video_section
         (Some [cname_line 10, cname_line 20, cname_line 30, cname_line 40])
         [fid_group ''10 20'', fid_group ''30 40'']] \<rparr>"

definition ex_ordered_session :: session where
  "ex_ordered_session =
     \<lparr> media = [ex_audio_section,
                 video_section
                   (Some [cname_line 10, msid_line 10, cname_line 20, msid_line 20])
                   [fid_group ''10 20'']] \<rparr>"

text \<open>A video section whose one group has one member: its member list is a Number.\<close>

definition ex_single_member_session :: session where
  "ex_single_member_session =
     \<lparr> media = [video_section (Some [cname_line 10])
         [\<lparr> semantics = ''FID'', group_ssrcs = Num 10 \<rparr>]] \<rparr>"

definition ex_pair_session :: session where
  "ex_pair_session =
     \<lparr> media = [video_section (Some [cname_line 10, cname_line 20]) [fid_group ''10 20'']] \<rparr>"

definition ex_audio_only_session :: session where
  "ex_audio_only_session = \<lparr> media = [ex_audio_section] \<rparr>"

definition ex_two_video_session :: session where
  "ex_two_video_session =
     \<lparr> media = [ex_audio_section, ex_plain_video_section, ex_plain_video_section] \<rparr>"

definition ex_doubled_session :: session where
  "ex_doubled_session =
     \<lparr> media = [ex_audio_section, ex_simulcast_section, ex_simulcast_section] \<rparr>"

text \<open>An audio section that carries simulcast attributes.\<close>

definition ex_simulcast_audio_section :: mline where
  "ex_simulcast_audio_section = \<lparr> mline_type = ''audio'', ssrcs = None, ssrcGroups = None,
      rids = Some [\<lparr> rid_id = ''1'', rid_direction = ''recv'' \<rparr>],
      simulcast = Some \<lparr> dir1 = ''recv'', list1 = ''1'' \<rparr>, simulcast_03 = None \<rparr>"

definition ex_mixed_session :: session where
  "ex_mixed_session =
     \<lparr> media = [ex_simulcast_section, ex_simulcast_section, ex_simulcast_audio_section] \<rparr>"

subsection \<open>An example codec\<close>

text \<open>
  A stand-in for the codec on the attributes that the model keeps. Its writer follows
  the sdp-transform writer: the lines of a section come in the order of the codec's
  grammar (source lines, then source-group lines, then the receive identifiers and the
  simulcast attributes), each line ended by CR LF. Its parser is a table from texts to
  parsed descriptions.
\<close>

definition crlf :: string where
  "crlf = [CHR 0x0D, CHR 0x0A]"

definition ex_write_ssrc :: "ssrc_line \<Rightarrow> string" where
  "ex_write_ssrc l =
     ''a=ssrc:'' @ toString (ssrc_id l) @ '' '' @ attribute l
       @ (case ssrc_value l of None \<Rightarrow> [] | Some v \<Rightarrow> '':'' @ v) @ crlf"

definition ex_write_group :: "ssrc_group \<Rightarrow> string" where
  "ex_write_group g =
     ''a=ssrc-group:'' @ semantics g @ '' '' @ toString (group_ssrcs g) @ crlf"

definition ex_write_rid :: "rid_line \<Rightarrow> string" where
  "ex_write_rid r = ''a=rid:'' @ rid_id r @ '' '' @ rid_direction r @ crlf"

definition ex_write_mline :: "mline \<Rightarrow> string" where
  "ex_write_mline m =
     ''m='' @ mline_type m @ crlf
       @ concat (map ex_write_ssrc (case ssrcs m of None \<Rightarrow> [] | Some xs \<Rightarrow> xs))
       @ concat (map ex_write_group (case ssrcGroups m of None \<Rightarrow> [] | Some gs \<Rightarrow> gs))
       @ concat (map ex_write_rid (case rids m of None \<Rightarrow> [] | Some rs \<Rightarrow> rs))
       @ (case simulcast m of
            None \<Rightarrow> []
          | Some a \<Rightarrow> ''a=simulcast:'' @ dir1 a @ '' '' @ list1 a @ crlf)
       @ (case simulcast_03 m of
            None \<Rightarrow> []
          | Some a \<Rightarrow> ''a=simulcast: '' @ sim_value a @ crlf)"

definition ex_write_session :: "session \<Rightarrow> string" where
  "ex_write_session s = concat (map ex_write_mline (media s))"

definition ex_codec :: "(string \<times> session) list \<Rightarrow> transform" where
  "ex_codec table =
     \<lparr> transform_parse =
         (\<lambda>text. case map_of table text of None \<Rightarrow> \<lparr> media = [] \<rparr> | Some s \<Rightarrow> s),
       transform_write = ex_write_session \<rparr>"

text \<open>
  The text of a video section as a browser writes it, the group line before the source
  lines, and the text that the writer gives for the same section.
\<close>

definition ex_group_first_text :: string where
  "ex_group_first_text =
     ''m=video'' @ crlf @ ''a=ssrc-group:FID 10 20'' @ crlf
       @ ''a=ssrc:10 cname:peer'' @ crlf @ ''a=ssrc:20 cname:peer'' @ crlf"

definition ex_sources_first_text :: string where
  "ex_sources_first_text =
     ''m=video'' @ crlf @ ''a=ssrc:10 cname:peer'' @ crlf @ ''a=ssrc:20 cname:peer'' @ crlf
       @ ''a=ssrc-group:FID 10 20'' @ crlf"

section \<open>Properties\<close>

subsection \<open>Auxiliary facts\<close>

lemma findIndex_None: "findIndex P xs = None \<longleftrightarrow> (\<forall>x \<in> set xs. \<not> P x)"
  by (induction xs) auto

lemma findIndex_Some:
  "findIndex P xs = Some i \<Longrightarrow> i < length xs \<and> P (xs ! i) \<and> (\<forall>j < i. \<not> P (xs ! j))"
proof (induction xs arbitrary: i)
  case Nil
  then show ?case by simp
next
  case (Cons x xs)
  then show ?case
    by (auto split: if_splits nat.splits simp: nth_Cons)
qed

lemma overwriteResolutions_twice:
  "overwriteResolutions config idx encs = (err, encs')
   \<Longrightarrow> overwriteResolutions config idx encs' = (err, encs')"
proof (induction encs arbitrary: idx err encs')
  case Nil
  then show ?case by simp
next
  case (Cons e es)
  show ?case
  proof (cases "idx < length config")
    case False
    with Cons.prems show ?thesis by auto
  next
    case True
    obtain r es' where rec: "overwriteResolutions config (Suc idx) es = (r, es')"
      by (cases "overwriteResolutions config (Suc idx) es")
    from Cons.IH [OF rec] have "overwriteResolutions config (Suc idx) es' = (r, es')" .
    with Cons.prems True rec show ?thesis by auto
  qed
qed

lemma allEqualEncodings_differ:
  "e1 \<in> set encs \<Longrightarrow> e2 \<in> set encs
   \<Longrightarrow> scaleResolutionDownBy e1 \<noteq> scaleResolutionDownBy e2 \<Longrightarrow> \<not> allEqualEncodings encs"
  by (cases encs) (auto simp: allEqualEncodings_def list_all_iff)

lemma split_acc_nonempty: "split_acc sep cur s \<noteq> []"
  by (induction s arbitrary: cur) auto

lemma split_str_nonempty: "split_str sep s \<noteq> []"
  by (simp add: split_str_def split_acc_nonempty)

lemma reorder_members_Some:
  "reorder_members (Some xs) members acc = Inr (acc @ spec_rebuild members xs)"
  by (induction members arbitrary: acc) (simp_all add: spec_rebuild_def source_key_def)

lemma reorder_members_None:
  "members \<noteq> [] \<Longrightarrow> reorder_members None members acc = Inl TypeError"
  by (cases members) simp_all


lemma reorder_mline_spec:
  assumes "mline_type m \<noteq> MediaType_AUDIO \<longrightarrow>
     (\<forall>g gs. ssrcGroups m = Some (g # gs) \<longrightarrow>
        ssrcs m \<noteq> None \<and> (\<exists>members. group_ssrcs g = Str members))"
  shows "reorder_mline m = Inr (spec_reorder_mline m)"
proof (cases "mline_type m = MediaType_AUDIO")
  case True
  then show ?thesis by (simp add: reorder_mline_def spec_reorder_mline_def)
next
  case False
  show ?thesis
  proof (cases "ssrcGroups m")
    case None
    with False show ?thesis by (simp add: reorder_mline_def spec_reorder_mline_def)
  next
    case (Some groups)
    show ?thesis
    proof (cases groups)
      case Nil
      with False Some show ?thesis by (simp add: reorder_mline_def spec_reorder_mline_def)
    next
      case (Cons g gs)
      with False Some assms obtain xs members where "ssrcs m = Some xs"
        and "group_ssrcs g = Str members"
        by auto
      with False Some Cons show ?thesis
        by (simp add: reorder_mline_def spec_reorder_mline_def reorder_members_Some
              group_members_def)
    qed
  qed
qed

lemma forEach_mline_map:
  "\<forall>m \<in> set ms. f m = Inr (g m) \<Longrightarrow> forEach_mline f ms = Inr (map g ms)"
  by (induction ms) simp_all

lemma in_member_order_subset: "in_member_order ms ks \<Longrightarrow> set ks \<subseteq> set ms"
proof (induction ms arbitrary: ks)
  case Nil then show ?case by simp
next
  case (Cons m ms)
  then have "set (dropWhile (\<lambda>k. k = m) ks) \<subseteq> set ms" by simp
  moreover have "set ks \<subseteq> insert m (set (dropWhile (\<lambda>k. k = m) ks))"
  proof
    fix k assume "k \<in> set ks"
    then have "k \<in> set (takeWhile (\<lambda>k. k = m) ks @ dropWhile (\<lambda>k. k = m) ks)" by simp
    then show "k \<in> insert m (set (dropWhile (\<lambda>k. k = m) ks))"
      by (auto dest: set_takeWhileD simp del: takeWhile_dropWhile_id)
  qed
  ultimately show ?case by auto
qed

lemma filter_run_split:
  "\<forall>x \<in> set (dropWhile P xs). \<not> P x \<Longrightarrow> filter P xs = takeWhile P xs"
proof (induction xs)
  case Nil
  then show ?case by simp
next
  case (Cons x xs)
  show ?case
  proof (cases "P x")
    case True
    with Cons.prems have "\<forall>y \<in> set (dropWhile P xs). \<not> P y" by simp
    then have "filter P xs = takeWhile P xs" by (rule Cons.IH)
    with True show ?thesis by (simp only: filter.simps takeWhile.simps if_True)
  next
    case False
    with Cons.prems have "\<forall>y \<in> set xs. \<not> P y" by simp
    then have "filter P xs = []" by (rule filter_False)
    with False show ?thesis by simp
  qed
qed

lemma filter_skip_run:
  "\<forall>x \<in> set (takeWhile P xs). \<not> Q x \<Longrightarrow> filter Q xs = filter Q (dropWhile P xs)"
  by (induction xs) auto

lemma spec_rebuild_fixed:
  "distinct ms \<Longrightarrow> in_member_order ms (map source_key xs) \<Longrightarrow> spec_rebuild ms xs = xs"
proof (induction ms arbitrary: xs)
  case Nil then show ?case by (simp add: spec_rebuild_def)
next
  case (Cons m ms)
  let ?P = "\<lambda>s. source_key s = m"
  let ?as = "takeWhile ?P xs" and ?bs = "dropWhile ?P xs"
  have drop: "dropWhile (\<lambda>k. k = m) (map source_key xs) = map source_key ?bs"
    by (simp add: dropWhile_map comp_def)
  from Cons.prems have ord: "in_member_order ms (map source_key ?bs)" and m: "m \<notin> set ms"
    and dist: "distinct ms"
    by (simp_all add: drop)
  from in_member_order_subset [OF ord] m have nom: "\<forall>s \<in> set ?bs. source_key s \<noteq> m" by auto
  have head: "filter ?P xs = ?as"
    using nom by (rule filter_run_split)
  have rest: "filter (\<lambda>s. source_key s = m') xs = filter (\<lambda>s. source_key s = m') ?bs"
    if "m' \<in> set ms" for m'
  proof -
    from that m have "m' \<noteq> m" by auto
    then have "\<forall>s \<in> set ?as. \<not> source_key s = m'"
      by (auto dest: set_takeWhileD)
    then show ?thesis by (rule filter_skip_run)
  qed
  have "map (\<lambda>member. filter (\<lambda>source. source_key source = member) xs) ms
      = map (\<lambda>member. filter (\<lambda>source. source_key source = member) ?bs) ms"
    by (rule map_cong [OF refl]) (rule rest)
  then have "spec_rebuild ms xs = spec_rebuild ms ?bs"
    by (simp only: spec_rebuild_def)
  moreover have "spec_rebuild (m # ms) xs = filter ?P xs @ spec_rebuild ms xs"
    by (simp add: spec_rebuild_def)
  ultimately have "spec_rebuild (m # ms) xs = ?as @ spec_rebuild ms ?bs"
    by (simp only: head)
  also have "\<dots> = ?as @ ?bs" using Cons.IH [OF dist ord] by simp
  finally show ?case by simp
qed

lemma spec_reorder_audio: "mline_type m = MediaType_AUDIO \<Longrightarrow> spec_reorder_mline m = m"
  by (simp add: spec_reorder_mline_def)

lemma spec_reorder_no_group:
  "ssrcGroups m = None \<or> ssrcGroups m = Some [] \<Longrightarrow> spec_reorder_mline m = m"
  by (auto simp: spec_reorder_mline_def)

lemma spec_reorder_group:
  "mline_type m \<noteq> MediaType_AUDIO \<Longrightarrow> ssrcGroups m = Some (g # gs) \<Longrightarrow> ssrcs m = Some xs
   \<Longrightarrow> group_ssrcs g = Str members
   \<Longrightarrow> spec_reorder_mline m = m\<lparr>ssrcs := Some (concat (map
          (\<lambda>member. filter (\<lambda>source. toString (ssrc_id source) = member) xs)
          (split_str CHR '' '' members)))\<rparr>"
  by (simp add: spec_reorder_mline_def spec_rebuild_def group_members_def source_key_def)

lemma spec_reorder_fixed:
  assumes "mline_type m \<noteq> MediaType_AUDIO \<longrightarrow>
     (\<forall>g gs. ssrcGroups m = Some (g # gs) \<longrightarrow>
        (\<exists>xs. ssrcs m = Some xs \<and> distinct (group_members g)
           \<and> in_member_order (group_members g) (map source_key xs)))"
  shows "spec_reorder_mline m = m"
proof (cases "mline_type m = MediaType_AUDIO")
  case True
  then show ?thesis by (rule spec_reorder_audio)
next
  case False
  show ?thesis
  proof (cases "ssrcGroups m")
    case None
    then show ?thesis by (simp add: spec_reorder_no_group)
  next
    case (Some groups)
    show ?thesis
    proof (cases groups)
      case Nil
      with Some show ?thesis by (simp add: spec_reorder_no_group)
    next
      case (Cons g gs)
      with Some False assms obtain xs where xs: "ssrcs m = Some xs"
        and "distinct (group_members g)"
        and "in_member_order (group_members g) (map source_key xs)"
        by blast
      then have "spec_rebuild (group_members g) xs = xs"
        by (simp add: spec_rebuild_fixed)
      with False Some Cons xs show ?thesis
        by (simp add: spec_reorder_mline_def)
    qed
  qed
qed

lemma ex_keys:
  "toString_nat 10 = ''10''" "toString_nat 20 = ''20''" "toString_nat 30 = ''30''"
  "toString_nat 40 = ''40''"
  by (simp_all add: toString_nat.simps digit_char_def)

lemma ex_members: "split_str CHR '' '' ''10 20'' = [''10'', ''20'']"
  by (simp add: split_str_def)

lemma findIndex_first:
  "idx < length xs \<Longrightarrow> P (xs ! idx) \<Longrightarrow> \<forall>j < idx. \<not> P (xs ! j) \<Longrightarrow> findIndex P xs = Some idx"
proof (induction xs arbitrary: idx)
  case Nil
  then show ?case by simp
next
  case (Cons x xs)
  show ?case
  proof (cases idx)
    case 0
    with Cons.prems show ?thesis by simp
  next
    case (Suc k)
    with Cons.prems have "\<not> P x" by auto
    moreover from Suc Cons.prems have "findIndex P xs = Some k"
      by (intro Cons.IH) auto
    ultimately show ?thesis using Suc by simp
  qed
qed

lemma strip_other_video_length: "length (strip_other_video idx i ms) = length ms"
  by (induction ms arbitrary: i) simp_all

lemma strip_other_video_nth:
  "j < length ms \<Longrightarrow> strip_other_video idx i ms ! j =
     (if mline_type (ms ! j) = MediaType_VIDEO \<and> i + j \<noteq> idx
      then (ms ! j)\<lparr>rids := None, simulcast := None, simulcast_03 := None\<rparr>
      else ms ! j)"
proof (induction ms arbitrary: i j)
  case Nil
  then show ?case by simp
next
  case (Cons m ms)
  show ?case
  proof (cases j)
    case 0
    then show ?thesis by simp
  next
    case (Suc k)
    with Cons.prems have "k < length ms" by simp
    from Cons.IH [OF this, of "Suc i"] Suc show ?thesis by simp
  qed
qed

subsection \<open>Stream encodings\<close>

text \<open>
  C7. With simulcast off, the encodings of a video track are one entry, active, with
  \<open>maxBitrate\<close> the bitrate \<open>high\<close> of the bitrate table, whatever the layer
  configuration holds; the encodings of a track that is not video are the one entry
  \<open>{active: true}\<close>.
\<close>

theorem getStreamEncodings_simulcast_off:
  "(\<not> isSimulcastOn (pc this) \<and> isVideoTrack localTrack \<longrightarrow>
      getStreamEncodings (this\<lparr>localStreamEncodingsConfig := config\<rparr>) localTrack
        = [ \<lparr> active = True, maxBitrate = Some (high (videoBitrates this)),
              rid = None, scaleResolutionDownBy = None \<rparr> ])
   \<and> (\<not> isVideoTrack localTrack \<longrightarrow>
      getStreamEncodings (this\<lparr>localStreamEncodingsConfig := config\<rparr>) localTrack
        = [ \<lparr> active = True, maxBitrate = None, rid = None, scaleResolutionDownBy = None \<rparr> ])"
  by (simp add: getStreamEncodings_def)

theorem getStreamEncodings_simulcast_off_witness:
  "getStreamEncodings (ex_tpc\<lparr>localStreamEncodingsConfig := []\<rparr>) ex_camera
     = [ \<lparr> active = True, maxBitrate = Some 1500000, rid = None, scaleResolutionDownBy = None \<rparr> ]
   \<and> getStreamEncodings (ex_tpc\<lparr>localStreamEncodingsConfig := []\<rparr>) ex_mic
     = [ \<lparr> active = True, maxBitrate = None, rid = None, scaleResolutionDownBy = None \<rparr> ]"
  using getStreamEncodings_simulcast_off [of ex_tpc ex_camera "[]"]
    getStreamEncodings_simulcast_off [of ex_tpc ex_mic "[]"]
  by (simp add: ex_tpc_def ex_pc_def ex_camera_def ex_mic_def ex_bitrates_def constructor_def)

text \<open>
  C8. Applying \<open>updateEncodingsResolution\<close> to the parameters it has left gives the
  same parameters again, and a call that returns normally is followed by one that returns
  normally; parameters in which two encodings have different downscale factors are
  returned as they are.
\<close>

theorem updateEncodingsResolution_idempotent:
  "snd (updateEncodingsResolution b this (snd (updateEncodingsResolution b this parameters)))
     = snd (updateEncodingsResolution b this parameters)
   \<and> (fst (updateEncodingsResolution b this parameters) = None \<longrightarrow>
        fst (updateEncodingsResolution b this
               (snd (updateEncodingsResolution b this parameters))) = None)
   \<and> (\<forall>encs. encodings parameters = Some encs
         \<and> (\<exists>e1 \<in> set encs. \<exists>e2 \<in> set encs.
               scaleResolutionDownBy e1 \<noteq> scaleResolutionDownBy e2)
        \<longrightarrow> updateEncodingsResolution b this parameters = (None, parameters))"
proof (intro conjI allI impI)
  let ?f = "updateEncodingsResolution b this"
  show "snd (?f (snd (?f parameters))) = snd (?f parameters)"
    by (auto simp: updateEncodingsResolution_def split: option.splits prod.splits
          dest: overwriteResolutions_twice)
next
  let ?f = "updateEncodingsResolution b this"
  assume "fst (?f parameters) = None"
  then show "fst (?f (snd (?f parameters))) = None"
    by (auto simp: updateEncodingsResolution_def split: option.splits prod.splits if_splits
          dest: overwriteResolutions_twice)
next
  fix encs
  assume "encodings parameters = Some encs
         \<and> (\<exists>e1 \<in> set encs. \<exists>e2 \<in> set encs.
               scaleResolutionDownBy e1 \<noteq> scaleResolutionDownBy e2)"
  then show "updateEncodingsResolution b this parameters = (None, parameters)"
    using allEqualEncodings_differ by (auto simp: updateEncodingsResolution_def)
qed

theorem updateEncodingsResolution_idempotent_witness:
  "snd (updateEncodingsResolution ex_browser ex_tpc
          \<lparr> encodings = Some [ex_encoding 2, ex_encoding 2, ex_encoding 2] \<rparr>)
     = \<lparr> encodings = Some [ex_encoding 4, ex_encoding 2, ex_encoding 1] \<rparr>
   \<and> snd (updateEncodingsResolution ex_browser ex_tpc
        (snd (updateEncodingsResolution ex_browser ex_tpc
          \<lparr> encodings = Some [ex_encoding 2, ex_encoding 2, ex_encoding 2] \<rparr>)))
     = \<lparr> encodings = Some [ex_encoding 4, ex_encoding 2, ex_encoding 1] \<rparr>
   \<and> updateEncodingsResolution ex_browser ex_tpc
        \<lparr> encodings = Some [ex_encoding 4, ex_encoding 2, ex_encoding 1] \<rparr>
     = (None, \<lparr> encodings = Some [ex_encoding 4, ex_encoding 2, ex_encoding 1] \<rparr>)"
proof -
  let ?p = "\<lparr> encodings = Some [ex_encoding 2, ex_encoding 2, ex_encoding 2] \<rparr>"
  let ?q = "\<lparr> encodings = Some [ex_encoding 4, ex_encoding 2, ex_encoding 1] \<rparr>"
  have once: "snd (updateEncodingsResolution ex_browser ex_tpc ?p) = ?q"
    by (simp add: updateEncodingsResolution_def allEqualEncodings_def ex_encoding_def
          ex_browser_def ex_tpc_def constructor_def)
  have differ: "encodings ?q = Some [ex_encoding 4, ex_encoding 2, ex_encoding 1]
      \<and> (\<exists>e1 \<in> set [ex_encoding 4, ex_encoding 2, ex_encoding 1].
           \<exists>e2 \<in> set [ex_encoding 4, ex_encoding 2, ex_encoding 1].
             scaleResolutionDownBy e1 \<noteq> scaleResolutionDownBy e2)"
    by (auto simp: ex_encoding_def)
  from updateEncodingsResolution_idempotent [of ex_browser ex_tpc ?p] once
  have twice: "snd (updateEncodingsResolution ex_browser ex_tpc
        (snd (updateEncodingsResolution ex_browser ex_tpc ?p))) = ?q"
    by simp
  from updateEncodingsResolution_idempotent [of ex_browser ex_tpc ?q] differ
  have "updateEncodingsResolution ex_browser ex_tpc ?q = (None, ?q)"
    by blast
  with once twice show ?thesis by simp
qed

subsection \<open>Track operations\<close>

text \<open>
  C4. When no transceiver's receiver carries the track's media type,
  \<open>addTrackUnmute\<close> returns a promise rejected with the error
  \<open>RTCRtpTransceiver for <type> not found\<close>, and the object, with its three tables,
  is as before.
\<close>

theorem addTrackUnmute_no_transceiver:
  assumes "\<forall>t \<in> set (transceivers (pc this)). receiver_kind t \<noteq> Some (getType localTrack)"
  shows "addTrackUnmute b env this localTrack
           = (Rejected (Error (not_found_message (getType localTrack))), this)"
proof -
  from assms have "findTransceiver b this (getType localTrack) None = None"
    by (simp add: findTransceiver_def findIndex_None)
  then show ?thesis
    by (simp add: addTrackUnmute_def Let_def)
qed

theorem addTrackUnmute_no_transceiver_witness:
  "addTrackUnmute ex_browser ex_transport ex_tpc ex_mic
     = (Rejected (Error ''RTCRtpTransceiver for audio not found''), ex_tpc)"
  using addTrackUnmute_no_transceiver [of ex_tpc ex_mic ex_browser ex_transport]
  by (simp add: ex_tpc_def ex_pc_def ex_mic_def constructor_def ex_video_transceiver_def
        receiver_kind_def not_found_message_def)

text \<open>
  C5. When both tracks are given and the new track has no stream, \<open>replaceTrack\<close>
  resolves, and the object differs from the one before only in \<open>localTracks\<close>: the
  old track's entry is deleted and the new track's entry is set. The transceivers, and
  with them every sender's track, are as before, and the result does not depend on the
  transport.
\<close>

theorem replaceTrack_without_stream:
  assumes "getOriginalStream newTrack = None"
  shows "replaceTrack b env this (Some oldTrack) (Some newTrack)
           = (Resolved,
              this\<lparr>pc := (pc this)\<lparr>localTracks :=
                ((localTracks (pc this))(rtcId oldTrack := None))
                  (rtcId newTrack \<mapsto> newTrack)\<rparr>\<rparr>)"
  using assms by (simp add: replaceTrack_both_def)

theorem replaceTrack_without_stream_witness:
  "fst (replaceTrack ex_browser ex_transport ex_tpc (Some ex_camera) (Some ex_muted_camera))
     = Resolved
   \<and> transceivers (pc (snd (replaceTrack ex_browser ex_transport ex_tpc
        (Some ex_camera) (Some ex_muted_camera)))) = [ex_video_transceiver]
   \<and> localTracks (pc (snd (replaceTrack ex_browser ex_transport ex_tpc
        (Some ex_camera) (Some ex_muted_camera)))) = [3 \<mapsto> ex_muted_camera]
   \<and> addedStreams (pc (snd (replaceTrack ex_browser ex_transport ex_tpc
        (Some ex_camera) (Some ex_muted_camera)))) = [100]"
  using replaceTrack_without_stream
          [of ex_muted_camera ex_browser ex_transport ex_tpc ex_camera]
  by (simp add: ex_tpc_def ex_pc_def ex_camera_def ex_muted_camera_def constructor_def)

text \<open>
  C10. When \<open>_findTransceiver\<close> finds no transceiver for the track,
  \<open>setEncodings\<close> resolves and leaves the object as it is; the transport's
  \<open>setParameters\<close> has no part in the result.
\<close>

theorem setEncodings_no_transceiver:
  assumes "findTransceiver b this (getType track) (Some track) = None"
  shows "setEncodings b env this track = (Resolved, this)"
  using assms by (simp add: setEncodings_def)

theorem setEncodings_no_transceiver_witness:
  "findTransceiver ex_browser ex_tpc (getType ex_mic) (Some ex_mic) = None
   \<and> setEncodings ex_browser ex_transport ex_tpc ex_mic = (Resolved, ex_tpc)"
proof -
  have none: "findTransceiver ex_browser ex_tpc (getType ex_mic) (Some ex_mic) = None"
    by (simp add: findTransceiver_def ex_browser_def ex_tpc_def ex_pc_def ex_mic_def
          constructor_def ex_video_transceiver_def sender_track_id_def)
  from setEncodings_no_transceiver [OF none] none show ?thesis by simp
qed

text \<open>
  C1 (amended). When both tracks are given, the new track has a stream, a transceiver
  with a sender is found for the old track and the sender's \<open>replaceTrack\<close> succeeds,
  \<open>replaceTrack\<close> resolves and the tables are updated together: the old track's entries
  in \<open>localTracks\<close> and \<open>localSSRCs\<close> are deleted, the new track's entry in
  \<open>localTracks\<close> is set, the new track's entry in \<open>localSSRCs\<close> is what
  the old track's entry was, and in \<open>_addedStreams\<close> every occurrence of the new
  track's stream is removed and that stream is pushed at the end. Every other stream,
  the old track's stream too, stays in \<open>_addedStreams\<close>.
\<close>

theorem replaceTrack_success_bookkeeping:
  assumes "getOriginalStream newTrack = Some stream"
    and "findTransceiver b this (getType newTrack) (Some oldTrack) = Some i"
    and "sender (transceivers (pc this) ! i) = Some s"
    and "ext_replaceTrack env s (Some (getTrack newTrack)) = Inr s'"
  shows "\<exists>this'. replaceTrack b env this (Some oldTrack) (Some newTrack) = (Resolved, this')
     \<and> localTracks (pc this')
         = ((localTracks (pc this))(rtcId oldTrack := None))(rtcId newTrack \<mapsto> newTrack)
     \<and> localSSRCs (pc this')
         = ((localSSRCs (pc this))(rtcId oldTrack := None))
             (rtcId newTrack \<mapsto> Map_get (localSSRCs (pc this)) (rtcId oldTrack))
     \<and> addedStreams (pc this')
         = filter (\<lambda>x. x \<noteq> stream) (addedStreams (pc this)) @ [stream]
     \<and> (rtcId oldTrack \<noteq> rtcId newTrack \<longrightarrow>
          localTracks (pc this') (rtcId oldTrack) = None
          \<and> localSSRCs (pc this') (rtcId oldTrack) = None)
     \<and> Map_get (localSSRCs (pc this')) (rtcId newTrack)
         = Map_get (localSSRCs (pc this)) (rtcId oldTrack)
     \<and> (\<forall>other. other \<noteq> stream \<longrightarrow>
          filter (\<lambda>x. x = other) (addedStreams (pc this'))
            = filter (\<lambda>x. x = other) (addedStreams (pc this)))"
proof -
  have keep: "filter (\<lambda>x. x \<noteq> stream \<and> x = other) xs = filter (\<lambda>x. x = other) xs"
    if "other \<noteq> stream" for other and xs :: "nat list"
    using that by (induction xs) auto
  from assms show ?thesis
    by (simp add: replaceTrack_both_def sender_replaceTrack_def Let_def Map_get_def keep)
qed

theorem replaceTrack_success_bookkeeping_witness:
  "fst (replaceTrack ex_browser ex_transport ex_tpc (Some ex_camera) (Some ex_desktop))
     = Resolved
   \<and> localTracks (pc (snd (replaceTrack ex_browser ex_transport ex_tpc
        (Some ex_camera) (Some ex_desktop)))) = [2 \<mapsto> ex_desktop]
   \<and> localSSRCs (pc (snd (replaceTrack ex_browser ex_transport ex_tpc
        (Some ex_camera) (Some ex_desktop)))) = [2 \<mapsto> Some 1111]
   \<and> addedStreams (pc (snd (replaceTrack ex_browser ex_transport ex_tpc
        (Some ex_camera) (Some ex_desktop)))) = [100, 200]"
proof -
  have stream: "getOriginalStream ex_desktop = Some 200"
    by (simp add: ex_desktop_def)
  have found: "findTransceiver ex_browser ex_tpc (getType ex_desktop) (Some ex_camera) = Some 0"
    by (simp add: findTransceiver_def ex_browser_def ex_tpc_def ex_pc_def ex_camera_def
          constructor_def ex_video_transceiver_def sender_track_id_def)
  have snd: "sender (transceivers (pc ex_tpc) ! 0)
      = Some \<lparr> sender_track = Some \<lparr> track_id = ''cam'', kind = ''video'' \<rparr>,
               getParameters = \<lparr> encodings = Some [] \<rparr> \<rparr>"
    by (simp add: ex_tpc_def ex_pc_def constructor_def ex_video_transceiver_def)
  have ok: "ext_replaceTrack ex_transport
      \<lparr> sender_track = Some \<lparr> track_id = ''cam'', kind = ''video'' \<rparr>,
        getParameters = \<lparr> encodings = Some [] \<rparr> \<rparr> (Some (getTrack ex_desktop))
      = Inr \<lparr> sender_track = Some (getTrack ex_desktop),
              getParameters = \<lparr> encodings = Some [] \<rparr> \<rparr>"
    by (simp add: ex_transport_def)
  from replaceTrack_success_bookkeeping [OF stream found snd ok]
  obtain this' where
    "replaceTrack ex_browser ex_transport ex_tpc (Some ex_camera) (Some ex_desktop)
       = (Resolved, this')"
    and "localTracks (pc this')
       = ((localTracks (pc ex_tpc))(rtcId ex_camera := None))(rtcId ex_desktop \<mapsto> ex_desktop)"
    and "localSSRCs (pc this')
       = ((localSSRCs (pc ex_tpc))(rtcId ex_camera := None))
           (rtcId ex_desktop \<mapsto> Map_get (localSSRCs (pc ex_tpc)) (rtcId ex_camera))"
    and "addedStreams (pc this')
       = filter (\<lambda>x. x \<noteq> 200) (addedStreams (pc ex_tpc)) @ [200]"
    by blast
  then show ?thesis
    by (simp add: ex_tpc_def ex_pc_def constructor_def Map_get_def)
       (simp add: ex_camera_def ex_desktop_def)
qed

text \<open>
  The claim C1 as written has the old track's stream removed from \<open>_addedStreams\<close>.
  Replacing the camera (stream 100) by the desktop (stream 200) resolves, and stream 100
  is still in \<open>_addedStreams\<close>.
\<close>

theorem replaceTrack_keeps_old_stream:
  "fst (replaceTrack ex_browser ex_transport ex_tpc (Some ex_camera) (Some ex_desktop))
     = Resolved
   \<and> getOriginalStream ex_camera = Some 100
   \<and> 100 \<in> set (addedStreams (pc ex_tpc))
   \<and> 100 \<in> set (addedStreams (pc (snd
        (replaceTrack ex_browser ex_transport ex_tpc (Some ex_camera) (Some ex_desktop)))))"
  by (simp add: replaceTrack_both_def sender_replaceTrack_def Let_def findTransceiver_def
       ex_browser_def ex_transport_def ex_tpc_def ex_pc_def ex_camera_def ex_desktop_def
       constructor_def ex_video_transceiver_def sender_track_id_def Map_get_def)

subsection \<open>Source order\<close>

text \<open>
  C2 (amended). For a session description in which every section that is not audio and
  has a source group also has a source list and has the member list of its first group
  as a string (several ids; a member list of one id is a Number),
  \<open>ensureCorrectOrderOfSsrcs\<close> returns a description of the same type whose text is
  the serialization of the parsed description with the sections rewritten one by one:
  an audio section and a section without a source group are unchanged, and a section
  that is not audio, with first group \<open>g\<close> and source list \<open>xs\<close>, gets as its
  source list, for each member id of \<open>g\<close> in its declared order, the descriptors of
  \<open>xs\<close> whose id is that member, concatenated. The witness is the example of the
  specification: sources with ids 20, 10 and the group \<open>FID 10 20\<close> give the order
  10, 20.
\<close>

theorem ensureCorrectOrderOfSsrcs_rebuilds:
  assumes "transform_parse tr (desc_sdp desc) = sdp"
    and "\<forall>m \<in> set (media sdp). mline_type m \<noteq> MediaType_AUDIO \<longrightarrow>
           (\<forall>g gs. ssrcGroups m = Some (g # gs) \<longrightarrow>
              ssrcs m \<noteq> None \<and> (\<exists>members. group_ssrcs g = Str members))"
  shows "\<exists>out. reorder_session sdp = Inr (sdp\<lparr>media := out\<rparr>)
     \<and> ensureCorrectOrderOfSsrcs tr desc
           = Inr \<lparr> desc_type = desc_type desc,
                   desc_sdp = transform_write tr (sdp\<lparr>media := out\<rparr>) \<rparr>
     \<and> length out = length (media sdp)
     \<and> (\<forall>i < length out.
          (mline_type (media sdp ! i) = MediaType_AUDIO \<longrightarrow> out ! i = media sdp ! i)
          \<and> (ssrcGroups (media sdp ! i) = None \<or> ssrcGroups (media sdp ! i) = Some []
               \<longrightarrow> out ! i = media sdp ! i)
          \<and> (\<forall>g gs xs members. mline_type (media sdp ! i) \<noteq> MediaType_AUDIO
                \<and> ssrcGroups (media sdp ! i) = Some (g # gs)
                \<and> ssrcs (media sdp ! i) = Some xs
                \<and> group_ssrcs g = Str members
               \<longrightarrow> out ! i = (media sdp ! i)\<lparr>ssrcs := Some (concat (map
                      (\<lambda>member. filter (\<lambda>source. toString (ssrc_id source) = member) xs)
                      (split_str CHR '' '' members)))\<rparr>))"
proof -
  let ?out = "map spec_reorder_mline (media sdp)"
  from assms(2) have "\<forall>m \<in> set (media sdp). reorder_mline m = Inr (spec_reorder_mline m)"
    by (intro ballI reorder_mline_spec) blast
  then have "forEach_mline reorder_mline (media sdp) = Inr ?out"
    by (rule forEach_mline_map)
  then have session: "reorder_session sdp = Inr (sdp\<lparr>media := ?out\<rparr>)"
    by (simp add: reorder_session_def)
  with assms(1) have top: "ensureCorrectOrderOfSsrcs tr desc
      = Inr \<lparr> desc_type = desc_type desc, desc_sdp = transform_write tr (sdp\<lparr>media := ?out\<rparr>) \<rparr>"
    by (simp add: ensureCorrectOrderOfSsrcs_def)
  have len: "length ?out = length (media sdp)" by simp
  have nth: "(mline_type (media sdp ! i) = MediaType_AUDIO \<longrightarrow> ?out ! i = media sdp ! i)
          \<and> (ssrcGroups (media sdp ! i) = None \<or> ssrcGroups (media sdp ! i) = Some []
               \<longrightarrow> ?out ! i = media sdp ! i)
          \<and> (\<forall>g gs xs members. mline_type (media sdp ! i) \<noteq> MediaType_AUDIO
                \<and> ssrcGroups (media sdp ! i) = Some (g # gs)
                \<and> ssrcs (media sdp ! i) = Some xs
                \<and> group_ssrcs g = Str members
               \<longrightarrow> ?out ! i = (media sdp ! i)\<lparr>ssrcs := Some (concat (map
                      (\<lambda>member. filter (\<lambda>source. toString (ssrc_id source) = member) xs)
                      (split_str CHR '' '' members)))\<rparr>)"
    if "i < length ?out" for i
  proof -
    from that have eq: "?out ! i = spec_reorder_mline (media sdp ! i)" by simp
    show ?thesis
      unfolding eq
      by (intro conjI impI allI)
         (simp_all add: spec_reorder_audio spec_reorder_no_group spec_reorder_group)
  qed
  from session top len nth show ?thesis by blast
qed

theorem ensureCorrectOrderOfSsrcs_rebuilds_witness:
  "reorder_session ex_swapped_session
     = Inr \<lparr> media = [ex_audio_section,
                 video_section (Some [cname_line 10, cname_line 20]) [fid_group ''10 20'']] \<rparr>
   \<and> ensureCorrectOrderOfSsrcs
        (ex_codec [(ex_write_session ex_swapped_session, ex_swapped_session)])
        \<lparr> desc_type = ''offer'', desc_sdp = ex_write_session ex_swapped_session \<rparr>
     = Inr \<lparr> desc_type = ''offer'',
             desc_sdp = ex_write_session
               \<lparr> media = [ex_audio_section,
                   video_section (Some [cname_line 10, cname_line 20])
                     [fid_group ''10 20'']] \<rparr> \<rparr>"
proof -
  let ?tr = "ex_codec [(ex_write_session ex_swapped_session, ex_swapped_session)]"
  let ?desc = "\<lparr> desc_type = ''offer'', desc_sdp = ex_write_session ex_swapped_session \<rparr>"
  have p: "transform_parse ?tr (desc_sdp ?desc) = ex_swapped_session"
    by (simp add: ex_codec_def)
  have h: "\<forall>m \<in> set (media ex_swapped_session). mline_type m \<noteq> MediaType_AUDIO \<longrightarrow>
           (\<forall>g gs. ssrcGroups m = Some (g # gs) \<longrightarrow>
              ssrcs m \<noteq> None \<and> (\<exists>members. group_ssrcs g = Str members))"
    by (simp add: ex_swapped_session_def video_section_def ex_audio_section_def
          MediaType_AUDIO_def fid_group_def)
  from ensureCorrectOrderOfSsrcs_rebuilds [OF p h]
  obtain out where res: "reorder_session ex_swapped_session = Inr (ex_swapped_session\<lparr>media := out\<rparr>)"
    and top: "ensureCorrectOrderOfSsrcs ?tr ?desc
           = Inr \<lparr> desc_type = desc_type ?desc,
                   desc_sdp = transform_write ?tr (ex_swapped_session\<lparr>media := out\<rparr>) \<rparr>"
    and len: "length out = length (media ex_swapped_session)"
    and nth: "\<forall>i < length out.
          (mline_type (media ex_swapped_session ! i) = MediaType_AUDIO
             \<longrightarrow> out ! i = media ex_swapped_session ! i)
          \<and> (ssrcGroups (media ex_swapped_session ! i) = None
               \<or> ssrcGroups (media ex_swapped_session ! i) = Some []
               \<longrightarrow> out ! i = media ex_swapped_session ! i)
          \<and> (\<forall>g gs xs members. mline_type (media ex_swapped_session ! i) \<noteq> MediaType_AUDIO
                \<and> ssrcGroups (media ex_swapped_session ! i) = Some (g # gs)
                \<and> ssrcs (media ex_swapped_session ! i) = Some xs
                \<and> group_ssrcs g = Str members
               \<longrightarrow> out ! i = (media ex_swapped_session ! i)\<lparr>ssrcs := Some (concat (map
                      (\<lambda>member. filter (\<lambda>source. toString (ssrc_id source) = member) xs)
                      (split_str CHR '' '' members)))\<rparr>)"
    by blast
  from len have l2: "length out = 2"
    by (simp add: ex_swapped_session_def)
  from nth l2 have "out ! 0 = media ex_swapped_session ! 0"
    by (simp add: ex_swapped_session_def ex_audio_section_def MediaType_AUDIO_def)
  then have o0: "out ! 0 = ex_audio_section"
    by (simp add: ex_swapped_session_def)
  from l2 have "1 < length out" by simp
  with nth have "\<forall>g gs xs members. mline_type (media ex_swapped_session ! 1) \<noteq> MediaType_AUDIO
                \<and> ssrcGroups (media ex_swapped_session ! 1) = Some (g # gs)
                \<and> ssrcs (media ex_swapped_session ! 1) = Some xs
                \<and> group_ssrcs g = Str members
               \<longrightarrow> out ! 1 = (media ex_swapped_session ! 1)\<lparr>ssrcs := Some (concat (map
                      (\<lambda>member. filter (\<lambda>source. toString (ssrc_id source) = member) xs)
                      (split_str CHR '' '' members)))\<rparr>"
    by blast
  then have o1: "out ! 1 = video_section (Some [cname_line 10, cname_line 20]) [fid_group ''10 20'']"
    by (simp add: ex_swapped_session_def video_section_def MediaType_AUDIO_def fid_group_def
          ex_members cname_line_def ex_keys)
  from l2 have "out = [out ! 0, out ! 1]"
    by (cases out; cases "tl out") auto
  with o0 o1 have out: "out = [ex_audio_section,
      video_section (Some [cname_line 10, cname_line 20]) [fid_group ''10 20'']]"
    by simp
  from res out have first: "reorder_session ex_swapped_session
     = Inr \<lparr> media = [ex_audio_section,
                 video_section (Some [cname_line 10, cname_line 20]) [fid_group ''10 20'']] \<rparr>"
    by (simp add: ex_swapped_session_def)
  from top out have "ensureCorrectOrderOfSsrcs ?tr ?desc
     = Inr \<lparr> desc_type = ''offer'',
             desc_sdp = ex_write_session
               \<lparr> media = [ex_audio_section,
                   video_section (Some [cname_line 10, cname_line 20])
                     [fid_group ''10 20'']] \<rparr> \<rparr>"
    by (simp add: ex_swapped_session_def ex_codec_def)
  with first show ?thesis by simp
qed

text \<open>
  The claim C2 as written speaks of every session description. A video section with the
  group \<open>FID 10 20\<close> and no source list makes the call throw: \<open>mLine.ssrcs\<close> is
  undefined when \<open>filter\<close> is read from it. A video section with the source 10 and the
  group \<open>FID 10\<close> makes the call throw as well: the member list is the Number 10, and
  a Number has no \<open>split\<close>.
\<close>

theorem ensureCorrectOrderOfSsrcs_missing_sources:
  "reorder_session ex_unsourced_session = Inl TypeError
   \<and> ensureCorrectOrderOfSsrcs (stub_transform ex_unsourced_session) ex_offer = Inl TypeError
   \<and> reorder_session ex_single_member_session = Inl TypeError
   \<and> ensureCorrectOrderOfSsrcs (stub_transform ex_single_member_session) ex_offer
       = Inl TypeError"
  by (simp add: ensureCorrectOrderOfSsrcs_def stub_transform_def
        reorder_session_def reorder_mline_def ex_unsourced_session_def
        ex_single_member_session_def
        video_section_def MediaType_AUDIO_def fid_group_def ex_members)

text \<open>
  C6 (amended). For a session description in which every section that is not audio and
  has a source group has the member list of its first group as a string, with distinct
  members, and has a source list made of the descriptors of these members only, member
  after member in the declared order, \<open>ensureCorrectOrderOfSsrcs\<close> leaves the parsed
  description as it is and returns the codec's serialization of the parsed input; when
  the codec writes the parsed input back to the text it was parsed from, the result is
  the input description, byte for byte.
\<close>

theorem ensureCorrectOrderOfSsrcs_noop:
  assumes "transform_parse tr (desc_sdp desc) = sdp"
    and "\<forall>m \<in> set (media sdp). mline_type m \<noteq> MediaType_AUDIO \<longrightarrow>
           (\<forall>g gs. ssrcGroups m = Some (g # gs) \<longrightarrow>
              (\<exists>xs members. ssrcs m = Some xs \<and> group_ssrcs g = Str members
                 \<and> distinct (split_str CHR '' '' members)
                 \<and> in_member_order (split_str CHR '' '' members)
                      (map (\<lambda>source. toString (ssrc_id source)) xs)))"
  shows "reorder_session sdp = Inr sdp
     \<and> ensureCorrectOrderOfSsrcs tr desc
          = Inr \<lparr> desc_type = desc_type desc,
                  desc_sdp = transform_write tr (transform_parse tr (desc_sdp desc)) \<rparr>
     \<and> (transform_write tr (transform_parse tr (desc_sdp desc)) = desc_sdp desc
          \<longrightarrow> ensureCorrectOrderOfSsrcs tr desc = Inr desc)"
proof -
  have hyp: "mline_type m \<noteq> MediaType_AUDIO \<longrightarrow>
     (\<forall>g gs. ssrcGroups m = Some (g # gs) \<longrightarrow>
        (\<exists>xs. ssrcs m = Some xs \<and> distinct (group_members g)
           \<and> in_member_order (group_members g) (map source_key xs)))"
    and str: "mline_type m \<noteq> MediaType_AUDIO \<longrightarrow>
     (\<forall>g gs. ssrcGroups m = Some (g # gs) \<longrightarrow>
        ssrcs m \<noteq> None \<and> (\<exists>members. group_ssrcs g = Str members))"
    if "m \<in> set (media sdp)" for m
  proof -
    have key: "map source_key xs = map (\<lambda>source. toString (ssrc_id source)) xs" for xs
      by (simp add: source_key_def)
    from assms(2) that show "mline_type m \<noteq> MediaType_AUDIO \<longrightarrow>
     (\<forall>g gs. ssrcGroups m = Some (g # gs) \<longrightarrow>
        (\<exists>xs. ssrcs m = Some xs \<and> distinct (group_members g)
           \<and> in_member_order (group_members g) (map source_key xs)))"
      unfolding key by (fastforce simp: group_members_def)
    from assms(2) that show "mline_type m \<noteq> MediaType_AUDIO \<longrightarrow>
     (\<forall>g gs. ssrcGroups m = Some (g # gs) \<longrightarrow>
        ssrcs m \<noteq> None \<and> (\<exists>members. group_ssrcs g = Str members))"
      by fastforce
  qed
  have fixed: "spec_reorder_mline m = m" if "m \<in> set (media sdp)" for m
    using hyp [OF that] by (rule spec_reorder_fixed)
  have "reorder_mline m = Inr (spec_reorder_mline m)" if "m \<in> set (media sdp)" for m
    using str [OF that] by (rule reorder_mline_spec)
  with fixed have "\<forall>m \<in> set (media sdp). reorder_mline m = Inr (id m)" by simp
  then have "forEach_mline reorder_mline (media sdp) = Inr (map id (media sdp))"
    by (rule forEach_mline_map)
  then have session: "reorder_session sdp = Inr sdp"
    by (simp add: reorder_session_def)
  with assms(1) have top: "ensureCorrectOrderOfSsrcs tr desc
      = Inr \<lparr> desc_type = desc_type desc,
              desc_sdp = transform_write tr (transform_parse tr (desc_sdp desc)) \<rparr>"
    by (simp add: ensureCorrectOrderOfSsrcs_def)
  from session top show ?thesis by simp
qed

theorem ensureCorrectOrderOfSsrcs_noop_witness:
  "reorder_session ex_ordered_session = Inr ex_ordered_session
   \<and> ensureCorrectOrderOfSsrcs
        (ex_codec [(ex_write_session ex_ordered_session, ex_ordered_session)])
        \<lparr> desc_type = ''offer'', desc_sdp = ex_write_session ex_ordered_session \<rparr>
     = Inr \<lparr> desc_type = ''offer'', desc_sdp = ex_write_session ex_ordered_session \<rparr>"
proof -
  let ?tr = "ex_codec [(ex_write_session ex_ordered_session, ex_ordered_session)]"
  let ?desc = "\<lparr> desc_type = ''offer'', desc_sdp = ex_write_session ex_ordered_session \<rparr>"
  have p: "transform_parse ?tr (desc_sdp ?desc) = ex_ordered_session"
    by (simp add: ex_codec_def)
  have h: "\<forall>m \<in> set (media ex_ordered_session). mline_type m \<noteq> MediaType_AUDIO \<longrightarrow>
           (\<forall>g gs. ssrcGroups m = Some (g # gs) \<longrightarrow>
              (\<exists>xs members. ssrcs m = Some xs \<and> group_ssrcs g = Str members
                 \<and> distinct (split_str CHR '' '' members)
                 \<and> in_member_order (split_str CHR '' '' members)
                      (map (\<lambda>source. toString (ssrc_id source)) xs)))"
    by (simp add: ex_ordered_session_def video_section_def ex_audio_section_def
          MediaType_AUDIO_def fid_group_def ex_members
          cname_line_def msid_line_def ex_keys)
  have w: "transform_write ?tr (transform_parse ?tr (desc_sdp ?desc)) = desc_sdp ?desc"
    by (simp add: ex_codec_def)
  from ensureCorrectOrderOfSsrcs_noop [OF p h] w show ?thesis by simp
qed

text \<open>
  The claim C6 as written takes the ordering invariant of the specification as the
  condition and byte identity with the input as the result. Three descriptions that
  satisfy the invariant: a video section with the groups \<open>FID 10 20\<close> and
  \<open>FID 30 40\<close> and the sources 10, 20, 30, 40 keeps the sources of the first group
  only; a video section with the source 10 and the group \<open>FID 10\<close> makes the call
  throw; and the text of a video section with the group line before the source lines is
  written back by the example codec with the source lines first, so the result differs
  from the input although the parsed description is unchanged.
\<close>

theorem ensureCorrectOrderOfSsrcs_drops_second_group:
  "spec_ordering_invariant ex_two_groups_session
   \<and> reorder_session ex_two_groups_session
       = Inr \<lparr> media = [video_section (Some [cname_line 10, cname_line 20])
                          [fid_group ''10 20'', fid_group ''30 40'']] \<rparr>
   \<and> reorder_session ex_two_groups_session \<noteq> Inr ex_two_groups_session
   \<and> spec_ordering_invariant ex_single_member_session
   \<and> reorder_session ex_single_member_session = Inl TypeError
   \<and> spec_ordering_invariant ex_pair_session
   \<and> transform_parse (ex_codec [(ex_group_first_text, ex_pair_session)]) ex_group_first_text
       = ex_pair_session
   \<and> reorder_session ex_pair_session = Inr ex_pair_session
   \<and> ensureCorrectOrderOfSsrcs (ex_codec [(ex_group_first_text, ex_pair_session)])
        \<lparr> desc_type = ''offer'', desc_sdp = ex_group_first_text \<rparr>
       = Inr \<lparr> desc_type = ''offer'', desc_sdp = ex_sources_first_text \<rparr>
   \<and> ex_sources_first_text \<noteq> ex_group_first_text"
proof -
  have m2: "split_str CHR '' '' ''30 40'' = [''30'', ''40'']"
    by (simp add: split_str_def)
  have inv: "spec_ordering_invariant ex_two_groups_session"
    by (simp add: spec_ordering_invariant_def fid_group_ordered_def group_members_def
        source_key_def ex_two_groups_session_def video_section_def MediaType_AUDIO_def
        fid_group_def ex_members m2 cname_line_def ex_keys)
  have res: "reorder_session ex_two_groups_session
       = Inr \<lparr> media = [video_section (Some [cname_line 10, cname_line 20])
                          [fid_group ''10 20'', fid_group ''30 40'']] \<rparr>"
    by (simp add: reorder_session_def reorder_mline_def ex_two_groups_session_def
        video_section_def MediaType_AUDIO_def fid_group_def ex_members
        cname_line_def ex_keys)
  have ne: "\<lparr> media = [video_section (Some [cname_line 10, cname_line 20])
                          [fid_group ''10 20'', fid_group ''30 40'']] \<rparr> \<noteq> ex_two_groups_session"
    by (simp add: ex_two_groups_session_def video_section_def)
  have inv1: "spec_ordering_invariant ex_single_member_session"
    by (simp add: spec_ordering_invariant_def fid_group_ordered_def group_members_def
        ex_single_member_session_def video_section_def MediaType_AUDIO_def)
  have res1: "reorder_session ex_single_member_session = Inl TypeError"
    by (simp add: reorder_session_def reorder_mline_def ex_single_member_session_def
        video_section_def MediaType_AUDIO_def)
  have inv2: "spec_ordering_invariant ex_pair_session"
    by (simp add: spec_ordering_invariant_def fid_group_ordered_def group_members_def
        source_key_def ex_pair_session_def video_section_def MediaType_AUDIO_def
        fid_group_def ex_members cname_line_def ex_keys)
  have parse: "transform_parse (ex_codec [(ex_group_first_text, ex_pair_session)])
      ex_group_first_text = ex_pair_session"
    by (simp add: ex_codec_def)
  have res2: "reorder_session ex_pair_session = Inr ex_pair_session"
    by (simp add: reorder_session_def reorder_mline_def ex_pair_session_def
        video_section_def MediaType_AUDIO_def fid_group_def ex_members
        cname_line_def ex_keys)
  have written: "ex_write_session ex_pair_session = ex_sources_first_text"
    by (simp add: ex_write_session_def ex_write_mline_def ex_write_ssrc_def
        ex_write_group_def ex_pair_session_def video_section_def fid_group_def
        cname_line_def ex_keys ex_sources_first_text_def)
  have top: "ensureCorrectOrderOfSsrcs (ex_codec [(ex_group_first_text, ex_pair_session)])
        \<lparr> desc_type = ''offer'', desc_sdp = ex_group_first_text \<rparr>
       = Inr \<lparr> desc_type = ''offer'', desc_sdp = ex_sources_first_text \<rparr>"
    using res2 written by (simp add: ensureCorrectOrderOfSsrcs_def ex_codec_def)
  have differ: "ex_sources_first_text \<noteq> ex_group_first_text"
    by (simp add: ex_sources_first_text_def ex_group_first_text_def crlf_def)
  from inv res ne inv1 res1 inv2 parse res2 top differ show ?thesis by simp
qed

subsection \<open>Simulcast receive\<close>

text \<open>
  C9. Without SDP munging, \<open>insertUnifiedPlanSimulcastReceive\<close> on a description
  that has no video section returns no description: it throws a \<open>TypeError\<close>.
\<close>

theorem insertUnifiedPlanSimulcastReceive_no_video:
  assumes "\<not> usesSdpMungingForSimulcast b"
    and "\<forall>m \<in> set (media (transform_parse tr (desc_sdp desc))). mline_type m \<noteq> MediaType_VIDEO"
  shows "insertUnifiedPlanSimulcastReceive b tr desc = Inl TypeError"
proof -
  from assms(2) have "findIndex (\<lambda>mline. mline_type mline = MediaType_VIDEO)
               (media (transform_parse tr (desc_sdp desc))) = None"
    by (simp add: findIndex_None)
  with assms(1) show ?thesis
    by (simp add: insertUnifiedPlanSimulcastReceive_def insertSimulcastReceive_session_def)
qed

theorem insertUnifiedPlanSimulcastReceive_no_video_witness:
  "insertUnifiedPlanSimulcastReceive ex_browser (stub_transform ex_audio_only_session) ex_offer
     = Inl TypeError"
proof -
  have munge: "\<not> usesSdpMungingForSimulcast ex_browser"
    by (simp add: ex_browser_def)
  have audio: "\<forall>m \<in> set (media (transform_parse (stub_transform ex_audio_only_session)
      (desc_sdp ex_offer))). mline_type m \<noteq> MediaType_VIDEO"
    by (simp add: stub_transform_def ex_audio_only_session_def ex_audio_section_def
          MediaType_VIDEO_def)
  from insertUnifiedPlanSimulcastReceive_no_video [OF munge audio] show ?thesis .
qed

text \<open>
  C3 (amended). Without SDP munging, let \<open>idx\<close> be the position of the first video
  section. When no section carries a simulcast attribute, the result is the parsed
  description with the receive identifiers 1, 2, 3 and the simulcast attribute set on
  the section at \<open>idx\<close> and every other section unchanged, so no other section
  carries them. When the section at \<open>idx\<close> has the identifiers and a simulcast
  attribute, it is unchanged, every other video section has its identifiers and
  simulcast attributes cleared, and every section that is not video is unchanged; so at
  most one video section of the result carries the advertisement, and a section of the
  result that carries it is the section at \<open>idx\<close> or a section that is not video
  and carried it before.
\<close>

theorem insertUnifiedPlanSimulcastReceive_single_advertisement:
  assumes "\<not> usesSdpMungingForSimulcast b"
    and "transform_parse tr (desc_sdp desc) = sdp"
    and "idx < length (media sdp)"
    and "mline_type (media sdp ! idx) = MediaType_VIDEO"
    and "\<forall>j < idx. mline_type (media sdp ! j) \<noteq> MediaType_VIDEO"
  shows "\<exists>out. insertSimulcastReceive_session b sdp = Inr (sdp\<lparr>media := out\<rparr>)
     \<and> insertUnifiedPlanSimulcastReceive b tr desc
          = Inr \<lparr> desc_type = desc_type desc,
                  desc_sdp = transform_write tr (sdp\<lparr>media := out\<rparr>) \<rparr>
     \<and> length out = length (media sdp)
     \<and> ((\<forall>m \<in> set (media sdp). \<not> carries_simulcast m) \<longrightarrow>
          out = (media sdp)[idx := (media sdp ! idx)
                   \<lparr>rids := Some recv_rids,
                    simulcast_03 := Some \<lparr> sim_value = simulcastLine b \<rparr>\<rparr>]
          \<and> map rid_id recv_rids = [''1'', ''2'', ''3'']
          \<and> (\<forall>i < length out. i \<noteq> idx \<longrightarrow> \<not> carries_simulcast (out ! i)))
     \<and> (rids (media sdp ! idx) \<noteq> None
          \<and> (simulcast_03 (media sdp ! idx) \<noteq> None \<or> simulcast (media sdp ! idx) \<noteq> None) \<longrightarrow>
          out ! idx = media sdp ! idx
          \<and> (\<forall>i < length out. i \<noteq> idx \<longrightarrow>
                (mline_type (media sdp ! i) = MediaType_VIDEO \<longrightarrow>
                   out ! i = (media sdp ! i)\<lparr>rids := None, simulcast := None,
                                              simulcast_03 := None\<rparr>
                   \<and> \<not> carries_simulcast (out ! i))
                \<and> (mline_type (media sdp ! i) \<noteq> MediaType_VIDEO \<longrightarrow>
                   out ! i = media sdp ! i))
          \<and> (\<forall>i < length out. carries_simulcast (out ! i) \<longrightarrow>
                i = idx
                \<or> (mline_type (media sdp ! i) \<noteq> MediaType_VIDEO
                     \<and> carries_simulcast (media sdp ! i))))"
proof -
  let ?ms = "media sdp"
  let ?m = "?ms ! idx"
  have idx: "findIndex (\<lambda>mline. mline_type mline = MediaType_VIDEO) ?ms = Some idx"
    using assms(3,4,5) by (intro findIndex_first) auto
  show ?thesis
  proof (cases "rids ?m \<noteq> None \<and> (simulcast_03 ?m \<noteq> None \<or> simulcast ?m \<noteq> None)")
    case True
    let ?out = "strip_other_video idx 0 ?ms"
    from True idx have session: "insertSimulcastReceive_session b sdp = Inr (sdp\<lparr>media := ?out\<rparr>)"
      by (simp add: insertSimulcastReceive_session_def)
    with assms(1,2) have top: "insertUnifiedPlanSimulcastReceive b tr desc
          = Inr \<lparr> desc_type = desc_type desc,
                  desc_sdp = transform_write tr (sdp\<lparr>media := ?out\<rparr>) \<rparr>"
      by (simp add: insertUnifiedPlanSimulcastReceive_def)
    have len: "length ?out = length ?ms" by (rule strip_other_video_length)
    have carried: "(\<forall>m \<in> set ?ms. \<not> carries_simulcast m) \<longrightarrow> False"
      using True assms(3) by (auto simp: carries_simulcast_def dest: nth_mem)
    have at_idx: "?out ! idx = ?m"
      using assms(3) by (simp add: strip_other_video_nth)
    have others: "(mline_type (?ms ! i) = MediaType_VIDEO \<longrightarrow>
                   ?out ! i = (?ms ! i)\<lparr>rids := None, simulcast := None, simulcast_03 := None\<rparr>
                   \<and> \<not> carries_simulcast (?out ! i))
                \<and> (mline_type (?ms ! i) \<noteq> MediaType_VIDEO \<longrightarrow> ?out ! i = ?ms ! i)"
      if "i < length ?out" "i \<noteq> idx" for i
      using that len by (simp add: strip_other_video_nth carries_simulcast_def)
    have single: "i = idx
        \<or> (mline_type (?ms ! i) \<noteq> MediaType_VIDEO \<and> carries_simulcast (?ms ! i))"
      if i: "i < length ?out" and c: "carries_simulcast (?out ! i)" for i
    proof (cases "i = idx")
      case True
      then show ?thesis by simp
    next
      case ne: False
      show ?thesis
      proof (cases "mline_type (?ms ! i) = MediaType_VIDEO")
        case True
        with others [OF i ne] c show ?thesis by simp
      next
        case False
        with others [OF i ne] have "?out ! i = ?ms ! i" by simp
        with c False show ?thesis by simp
      qed
    qed
    from session top len carried at_idx others single True show ?thesis
      by (intro exI [of _ ?out] conjI impI allI) blast+
  next
    case False
    let ?out = "?ms[idx := ?m\<lparr>rids := Some recv_rids,
                    simulcast_03 := Some \<lparr> sim_value = simulcastLine b \<rparr>\<rparr>]"
    from False idx have session: "insertSimulcastReceive_session b sdp = Inr (sdp\<lparr>media := ?out\<rparr>)"
      by (auto simp: insertSimulcastReceive_session_def Let_def)
    with assms(1,2) have top: "insertUnifiedPlanSimulcastReceive b tr desc
          = Inr \<lparr> desc_type = desc_type desc,
                  desc_sdp = transform_write tr (sdp\<lparr>media := ?out\<rparr>) \<rparr>"
      by (simp add: insertUnifiedPlanSimulcastReceive_def)
    have len: "length ?out = length ?ms" by simp
    have ids: "map rid_id recv_rids = [''1'', ''2'', ''3'']"
      by (simp add: recv_rids_def SIM_LAYER_1_RID_def SIM_LAYER_2_RID_def SIM_LAYER_3_RID_def)
    have others: "\<not> carries_simulcast (?out ! i)"
      if "\<forall>m \<in> set ?ms. \<not> carries_simulcast m" "i < length ?out" "i \<noteq> idx" for i
      using that by simp
    from session top len ids others False show ?thesis
      by (intro exI [of _ ?out] conjI impI allI) blast+
  qed
qed

theorem insertUnifiedPlanSimulcastReceive_single_advertisement_witness:
  "insertSimulcastReceive_session ex_browser ex_two_video_session
     = Inr \<lparr> media = [ex_audio_section,
                ex_plain_video_section\<lparr>rids := Some recv_rids,
                  simulcast_03 := Some \<lparr> sim_value = ''recv rid=1;2;3'' \<rparr>\<rparr>,
                ex_plain_video_section] \<rparr>
   \<and> insertSimulcastReceive_session ex_browser ex_doubled_session
     = Inr \<lparr> media = [ex_audio_section, ex_simulcast_section, ex_plain_video_section] \<rparr>"
proof -
  have munge: "\<not> usesSdpMungingForSimulcast ex_browser"
    by (simp add: ex_browser_def)
  have line: "simulcastLine ex_browser = ''recv rid=1;2;3''"
    by (simp add: simulcastLine_def ex_browser_def SIM_LAYER_RIDS_def
          SIM_LAYER_1_RID_def SIM_LAYER_2_RID_def SIM_LAYER_3_RID_def)
  have p1: "transform_parse (stub_transform ex_two_video_session) (desc_sdp ex_offer)
      = ex_two_video_session"
    by (simp add: stub_transform_def)
  have i1: "1 < length (media ex_two_video_session)"
    "mline_type (media ex_two_video_session ! 1) = MediaType_VIDEO"
    "\<forall>j < 1. mline_type (media ex_two_video_session ! j) \<noteq> MediaType_VIDEO"
    by (simp_all add: ex_two_video_session_def ex_plain_video_section_def
          ex_audio_section_def MediaType_VIDEO_def)
  have none: "\<forall>m \<in> set (media ex_two_video_session). \<not> carries_simulcast m"
    by (simp add: ex_two_video_session_def ex_plain_video_section_def
          ex_audio_section_def carries_simulcast_def)
  from insertUnifiedPlanSimulcastReceive_single_advertisement [OF munge p1 i1] none
  obtain out where "insertSimulcastReceive_session ex_browser ex_two_video_session
       = Inr (ex_two_video_session\<lparr>media := out\<rparr>)"
    and "out = (media ex_two_video_session)[1 := (media ex_two_video_session ! 1)
                   \<lparr>rids := Some recv_rids,
                    simulcast_03 := Some \<lparr> sim_value = simulcastLine ex_browser \<rparr>\<rparr>]"
    by blast
  then have first: "insertSimulcastReceive_session ex_browser ex_two_video_session
     = Inr \<lparr> media = [ex_audio_section,
                ex_plain_video_section\<lparr>rids := Some recv_rids,
                  simulcast_03 := Some \<lparr> sim_value = ''recv rid=1;2;3'' \<rparr>\<rparr>,
                ex_plain_video_section] \<rparr>"
    by (simp add: ex_two_video_session_def line)
  have p2: "transform_parse (stub_transform ex_doubled_session) (desc_sdp ex_offer)
      = ex_doubled_session"
    by (simp add: stub_transform_def)
  have i2: "1 < length (media ex_doubled_session)"
    "mline_type (media ex_doubled_session ! 1) = MediaType_VIDEO"
    "\<forall>j < 1. mline_type (media ex_doubled_session ! j) \<noteq> MediaType_VIDEO"
    by (simp_all add: ex_doubled_session_def ex_simulcast_section_def
          ex_audio_section_def MediaType_VIDEO_def)
  have has: "rids (media ex_doubled_session ! 1) \<noteq> None
      \<and> (simulcast_03 (media ex_doubled_session ! 1) \<noteq> None
           \<or> simulcast (media ex_doubled_session ! 1) \<noteq> None)"
    by (simp add: ex_doubled_session_def ex_simulcast_section_def)
  from insertUnifiedPlanSimulcastReceive_single_advertisement [OF munge p2 i2] has
  obtain out where res: "insertSimulcastReceive_session ex_browser ex_doubled_session
       = Inr (ex_doubled_session\<lparr>media := out\<rparr>)"
    and len: "length out = length (media ex_doubled_session)"
    and at1: "out ! 1 = media ex_doubled_session ! 1"
    and others: "\<forall>i < length out. i \<noteq> 1 \<longrightarrow>
                (mline_type (media ex_doubled_session ! i) = MediaType_VIDEO \<longrightarrow>
                   out ! i = (media ex_doubled_session ! i)\<lparr>rids := None, simulcast := None,
                                              simulcast_03 := None\<rparr>
                   \<and> \<not> carries_simulcast (out ! i))
                \<and> (mline_type (media ex_doubled_session ! i) \<noteq> MediaType_VIDEO \<longrightarrow>
                   out ! i = media ex_doubled_session ! i)"
    by blast
  from len have l3: "length out = 3"
    by (simp add: ex_doubled_session_def)
  from others l3 have "out ! 0 = media ex_doubled_session ! 0"
    by (simp add: ex_doubled_session_def ex_audio_section_def MediaType_VIDEO_def)
  then have o0: "out ! 0 = ex_audio_section"
    by (simp add: ex_doubled_session_def)
  from at1 have o1: "out ! 1 = ex_simulcast_section"
    by (simp add: ex_doubled_session_def)
  from l3 have "2 < length out \<and> (2::nat) \<noteq> 1" by simp
  with others have "mline_type (media ex_doubled_session ! 2) = MediaType_VIDEO \<longrightarrow>
                   out ! 2 = (media ex_doubled_session ! 2)\<lparr>rids := None, simulcast := None,
                                              simulcast_03 := None\<rparr>"
    by blast
  then have o2: "out ! 2 = ex_plain_video_section"
    by (simp add: ex_doubled_session_def ex_simulcast_section_def MediaType_VIDEO_def
          ex_plain_video_section_def)
  from l3 have "out = [out ! 0, out ! 1, out ! 2]"
    by (cases out; cases "tl out"; cases "tl (tl out)") auto
  with o0 o1 o2 have "out = [ex_audio_section, ex_simulcast_section, ex_plain_video_section]"
    by simp
  with res have "insertSimulcastReceive_session ex_browser ex_doubled_session
     = Inr \<lparr> media = [ex_audio_section, ex_simulcast_section, ex_plain_video_section] \<rparr>"
    by (simp add: ex_doubled_session_def)
  with first show ?thesis by simp
qed


text \<open>
  The claim C3 as written has at most one media section of the result carry the
  advertisement. In a description with two video sections and an audio section that all
  carry the identifiers and a simulcast attribute, the second video section is cleared
  and the audio section is not: two sections of the result carry the advertisement.
\<close>

theorem insertUnifiedPlanSimulcastReceive_keeps_audio_advertisement:
  "insertSimulcastReceive_session ex_browser ex_mixed_session
     = Inr \<lparr> media = [ex_simulcast_section, ex_plain_video_section,
                        ex_simulcast_audio_section] \<rparr>
   \<and> insertUnifiedPlanSimulcastReceive ex_browser
        (ex_codec [(ex_write_session ex_mixed_session, ex_mixed_session)])
        \<lparr> desc_type = ''offer'', desc_sdp = ex_write_session ex_mixed_session \<rparr>
     = Inr \<lparr> desc_type = ''offer'',
             desc_sdp = ex_write_session
               \<lparr> media = [ex_simulcast_section, ex_plain_video_section,
                          ex_simulcast_audio_section] \<rparr> \<rparr>
   \<and> filter carries_simulcast
         [ex_simulcast_section, ex_plain_video_section, ex_simulcast_audio_section]
       = [ex_simulcast_section, ex_simulcast_audio_section]
   \<and> ex_simulcast_section \<noteq> ex_simulcast_audio_section"
proof -
  have session: "insertSimulcastReceive_session ex_browser ex_mixed_session
     = Inr \<lparr> media = [ex_simulcast_section, ex_plain_video_section,
                        ex_simulcast_audio_section] \<rparr>"
    by (simp add: insertSimulcastReceive_session_def ex_mixed_session_def
          ex_simulcast_section_def ex_simulcast_audio_section_def
          ex_plain_video_section_def MediaType_VIDEO_def)
  then have top: "insertUnifiedPlanSimulcastReceive ex_browser
        (ex_codec [(ex_write_session ex_mixed_session, ex_mixed_session)])
        \<lparr> desc_type = ''offer'', desc_sdp = ex_write_session ex_mixed_session \<rparr>
     = Inr \<lparr> desc_type = ''offer'',
             desc_sdp = ex_write_session
               \<lparr> media = [ex_simulcast_section, ex_plain_video_section,
                          ex_simulcast_audio_section] \<rparr> \<rparr>"
    by (simp add: insertUnifiedPlanSimulcastReceive_def ex_codec_def ex_browser_def)
  have carriers: "filter carries_simulcast
         [ex_simulcast_section, ex_plain_video_section, ex_simulcast_audio_section]
       = [ex_simulcast_section, ex_simulcast_audio_section]"
    by (simp add: carries_simulcast_def ex_simulcast_section_def
          ex_simulcast_audio_section_def ex_plain_video_section_def)
  have "ex_simulcast_section \<noteq> ex_simulcast_audio_section"
    by (simp add: ex_simulcast_section_def ex_simulcast_audio_section_def)
  with session top carriers show ?thesis by simp
qed

end
